theory Spec2Isabelle
  imports Complex_Main
begin

section \<open>Equilibrium potentials (Resting\_membrane\_potential.ipynb)\<close>

text \<open>
  The notebook computes with Python floats and NumPy's \<open>log\<close>. A finite float is
  modelled as the real number it stands for; the rounding of a finite result and the
  sign of a zero are not modelled. What the code does beyond real arithmetic is written
  out:
  \<^item> Python's \<open>/\<close> on numbers raises \<open>ZeroDivisionError\<close> when the divisor is zero;
  \<^item> \<open>np.log\<close> does not raise: it returns \<open>-inf\<close> at zero and \<open>nan\<close> on a negative
    argument (with a warning only);
  \<^item> for the Nernst cell, whose claims speak of every input: a product or quotient
    beyond the float range is an infinity, one too small is zero, and an \<open>int\<close> too large
    for a float raises \<open>OverflowError\<close> when it meets a float.
\<close>

datatype pyerror = ZeroDivisionError | OverflowError

datatype npfloat = Fin real | PInf | NInf | NaN

text \<open>Division and logarithm of finite floats, as \<open>GHK_V\<close> below uses them.\<close>

definition truediv :: "real \<Rightarrow> real \<Rightarrow> pyerror + real" where
  "truediv a b = (if b = 0 then Inl ZeroDivisionError else Inr (a / b))"

definition np_log :: "real \<Rightarrow> npfloat" where
  "np_log x = (if 0 < x then Fin (ln x) else if x = 0 then NInf else NaN)"

text \<open>A finite Python float times a NumPy float (IEEE rules for the infinities).\<close>

fun fmul :: "real \<Rightarrow> npfloat \<Rightarrow> npfloat" where
  "fmul c (Fin x) = Fin (c * x)"
| "fmul c PInf = (if 0 < c then PInf else if c < 0 then NInf else NaN)"
| "fmul c NInf = (if 0 < c then NInf else if c < 0 then PInf else NaN)"
| "fmul c NaN = NaN"

text \<open>The module-level constants of the verification cell: \<open>R = 8.314\<close>, \<open>F = 96485.33\<close>.\<close>

definition R :: real where
  "R = 8314 / 1000"

definition F :: real where
  "F = 9648533 / 100"

subsection \<open>The range of floats\<close>

text \<open>
  IEEE double precision, round to nearest: a result whose magnitude reaches
  \<open>2^1024 - 2^970\<close> (half a unit in the last place above the largest float) is an
  infinity, and a result of magnitude at most \<open>2^-1075\<close> (half the smallest float) is
  zero. In between, the result is taken to be the real number itself.
\<close>

definition float_overflow :: real where
  "float_overflow = 2 ^ 1024 - 2 ^ 970"

definition float_underflow :: real where
  "float_underflow = 1 / 2 ^ 1075"

definition fl :: "real \<Rightarrow> npfloat" where
  "fl x =
     (if float_overflow \<le> x then PInf
      else if x \<le> - float_overflow then NInf
      else if \<bar>x\<bar> \<le> float_underflow then Fin 0
      else Fin x)"

text \<open>
  An \<open>int\<close> operand of a float operation is converted first; Python raises
  \<open>OverflowError\<close> ("int too large to convert to float") from \<open>2^1024 - 2^970\<close> on.
\<close>

definition float_of_int :: "int \<Rightarrow> pyerror + npfloat" where
  "float_of_int n =
     (if float_overflow \<le> \<bar>real_of_int n\<bar> then Inl OverflowError
      else Inr (Fin (real_of_int n)))"

text \<open>An infinity times (or divided by) a finite number of the given sign; \<open>inf * 0\<close> is NaN.\<close>

definition inf_times :: "real \<Rightarrow> npfloat" where
  "inf_times s = (if 0 < s then PInf else if s < 0 then NInf else NaN)"

text \<open>Float multiplication (Python's and NumPy's): it never raises.\<close>

fun float_mul :: "npfloat \<Rightarrow> npfloat \<Rightarrow> npfloat" where
  "float_mul (Fin x) (Fin y) = fl (x * y)"
| "float_mul (Fin x) PInf = inf_times x"
| "float_mul (Fin x) NInf = inf_times (- x)"
| "float_mul PInf (Fin y) = inf_times y"
| "float_mul NInf (Fin y) = inf_times (- y)"
| "float_mul PInf PInf = PInf"
| "float_mul PInf NInf = NInf"
| "float_mul NInf PInf = NInf"
| "float_mul NInf NInf = PInf"
| "float_mul NaN b = NaN"
| "float_mul a NaN = NaN"

text \<open>
  Python's \<open>/\<close> on floats: a zero divisor raises \<open>ZeroDivisionError\<close> whatever the
  dividend is; otherwise the quotient follows IEEE and nothing is raised.
\<close>

definition float_truediv :: "npfloat \<Rightarrow> npfloat \<Rightarrow> pyerror + npfloat" where
  "float_truediv a b =
     (case b of
        Fin y \<Rightarrow>
          (if y = 0 then Inl ZeroDivisionError
           else Inr (case a of
                       Fin x \<Rightarrow> fl (x / y)
                     | PInf \<Rightarrow> inf_times y
                     | NInf \<Rightarrow> inf_times (- y)
                     | NaN \<Rightarrow> NaN))
      | PInf \<Rightarrow> Inr (case a of Fin x \<Rightarrow> Fin 0 | PInf \<Rightarrow> NaN | NInf \<Rightarrow> NaN | NaN \<Rightarrow> NaN)
      | NInf \<Rightarrow> Inr (case a of Fin x \<Rightarrow> Fin 0 | PInf \<Rightarrow> NaN | NInf \<Rightarrow> NaN | NaN \<Rightarrow> NaN)
      | NaN \<Rightarrow> Inr NaN)"

text \<open>\<open>np.log\<close> on a float: it never raises.\<close>

definition float_log :: "npfloat \<Rightarrow> npfloat" where
  "float_log a =
     (case a of
        Fin x \<Rightarrow> (if 0 < x then Fin (ln x) else if x = 0 then NInf else NaN)
      | PInf \<Rightarrow> PInf
      | NInf \<Rightarrow> NaN
      | NaN \<Rightarrow> NaN)"

text \<open>
  A real number well inside the range of floats: zero, or of a magnitude between
  \<open>2^-1021\<close> and \<open>2^1023\<close>. A float operation with such a result neither overflows nor
  underflows; the factor of two to the largest and to the smallest normal float leaves
  room for the rounding that is not modelled.
\<close>

definition in_float_range :: "real \<Rightarrow> bool" where
  "in_float_range x \<longleftrightarrow> x = 0 \<or> (1 / 2 ^ 1021 \<le> \<bar>x\<bar> \<and> \<bar>x\<bar> \<le> 2 ^ 1023)"

subsection \<open>The Nernst verification cell\<close>

text \<open>
  The expression of the verification cell,
  \<^verbatim>\<open>ek = - R * T/(z * F) * np.log(Cin/Cout)\<close>,
  as a function of the four quantities the cell sets before it: \<open>z\<close> (an \<open>int\<close>, as in
  the cell) and the floats \<open>Cin\<close>, \<open>Cout\<close>, \<open>T\<close>. Python parses it as
  \<open>(((-R) * T) / (z * F)) * np.log(Cin / Cout)\<close> and evaluates left to right: the product
  \<open>(-R) * T\<close>, then \<open>z * F\<close> (which converts \<open>z\<close>), then the first division, then
  \<open>Cin / Cout\<close>, the logarithm and the last product.
\<close>

definition ek :: "int \<Rightarrow> real \<Rightarrow> real \<Rightarrow> real \<Rightarrow> pyerror + npfloat" where
  "ek z Cin Cout T =
     (let a = float_mul (Fin (- R)) (Fin T)
      in case float_of_int z of
           Inl e \<Rightarrow> Inl e
         | Inr zf \<Rightarrow>
             (case float_truediv a (float_mul zf (Fin F)) of
                Inl e \<Rightarrow> Inl e
              | Inr c \<Rightarrow>
                  (case float_truediv (Fin Cin) (Fin Cout) of
                     Inl e \<Rightarrow> Inl e
                   | Inr q \<Rightarrow> Inr (float_mul c (float_log q)))))"

text \<open>
  The cell as a whole. It is not a function definition but module-level code: it
  imports NumPy and assigns the module globals \<open>R\<close>, \<open>T\<close>, \<open>z\<close>, \<open>F\<close>, \<open>Cin\<close>, \<open>Cout\<close>
  (the constants \<open>R\<close> and \<open>F\<close> are the ones \<open>GHK_V\<close> reads later), then assigns \<open>ek\<close>
  and prints it. When the expression raises, the earlier assignments stay, \<open>ek\<close> is not
  assigned and nothing is printed.
  \<^verbatim>\<open>
  import numpy as np
  R = 8.314
  T = 273.15 + 37
  z = 1
  F = 96485.33
  Cin = 140.0
  Cout = 5.0

  ek = - R * T/(z * F) * np.log(Cin/Cout)
  print(ek)
  \<close>
\<close>

datatype pyval = PyInt int | PyFloat npfloat | PyModule string

record pystate =
  globals :: "string \<rightharpoonup> pyval"
  stdout :: "npfloat list"

definition assign :: "string \<Rightarrow> pyval \<Rightarrow> pystate \<Rightarrow> pystate" where
  "assign name v s = s\<lparr>globals := (globals s)(name \<mapsto> v)\<rparr>"

definition print :: "npfloat \<Rightarrow> pystate \<Rightarrow> pystate" where
  "print v s = s\<lparr>stdout := stdout s @ [v]\<rparr>"

definition nernst_cell ::
  "int \<Rightarrow> real \<Rightarrow> real \<Rightarrow> real \<Rightarrow> pystate \<Rightarrow> pystate \<times> (pyerror + npfloat)" where
  "nernst_cell z Cin Cout T s0 =
     (let s = assign ''np'' (PyModule ''numpy'') s0;
          s = assign ''R'' (PyFloat (Fin R)) s;
          s = assign ''T'' (PyFloat (Fin T)) s;
          s = assign ''z'' (PyInt z) s;
          s = assign ''F'' (PyFloat (Fin F)) s;
          s = assign ''Cin'' (PyFloat (Fin Cin)) s;
          s = assign ''Cout'' (PyFloat (Fin Cout)) s
      in case ek z Cin Cout T of
           Inl e \<Rightarrow> (s, Inl e)
         | Inr v \<Rightarrow> (print v (assign ''ek'' (PyFloat v) s), Inr v))"

subsection \<open>The GHK voltage equation\<close>

text \<open>
  \<^verbatim>\<open>
  def GHK_V(K_in, K_out, Na_in, Na_out, Cl_in, Cl_out, P_K, P_Na, P_Cl, T):
      num = P_K * K_out + P_Na * Na_out + P_Cl * Cl_in
      den = P_K * K_in + P_Na * Na_in + P_Cl * Cl_out
      return (R * T / F) * np.log(num / den)
  \<close>
\<close>

definition GHK_num :: "real \<Rightarrow> real \<Rightarrow> real \<Rightarrow> real \<Rightarrow> real \<Rightarrow> real \<Rightarrow> real" where
  "GHK_num K_out Na_out Cl_in P_K P_Na P_Cl = P_K * K_out + P_Na * Na_out + P_Cl * Cl_in"

definition GHK_den :: "real \<Rightarrow> real \<Rightarrow> real \<Rightarrow> real \<Rightarrow> real \<Rightarrow> real \<Rightarrow> real" where
  "GHK_den K_in Na_in Cl_out P_K P_Na P_Cl = P_K * K_in + P_Na * Na_in + P_Cl * Cl_out"

definition GHK_V ::
  "real \<Rightarrow> real \<Rightarrow> real \<Rightarrow> real \<Rightarrow> real \<Rightarrow> real \<Rightarrow> real \<Rightarrow> real \<Rightarrow> real \<Rightarrow> real \<Rightarrow> pyerror + npfloat" where
  "GHK_V K_in K_out Na_in Na_out Cl_in Cl_out P_K P_Na P_Cl T =
     (let num = GHK_num K_out Na_out Cl_in P_K P_Na P_Cl;
          den = GHK_den K_in Na_in Cl_out P_K P_Na P_Cl
      in case truediv num den of
           Inl e \<Rightarrow> Inl e
         | Inr q \<Rightarrow> Inr (fmul (R * T / F) (np_log q)))"

section \<open>Hodgkin-Huxley gate tables (the synapse notebook, \<open>get_hh_proto\<close>)\<close>

text \<open>\<open>EREST_ACT = -70e-3\<close>, \<open>ENa = 115e-3 + EREST_ACT\<close>, \<open>EK = -12e-3 + EREST_ACT\<close>, \<open>DIA = 30e-6\<close>.\<close>

definition EREST_ACT :: real where
  "EREST_ACT = - 70 / 1000"

definition ENa :: real where
  "ENa = 115 / 1000 + EREST_ACT"

definition EK :: real where
  "EK = - 12 / 1000 + EREST_ACT"

definition DIA :: real where
  "DIA = 30 / 1000000"

text \<open>
  The rate expressions that \<open>get_hh_proto\<close> assigns to \<open>alphaExpr\<close> and \<open>betaExpr\<close> of the
  gates \<open>m\<close>, \<open>h\<close> and \<open>n\<close>, as functions of the voltage \<open>v\<close>. A division whose divisor
  is zero is the value \<open>None\<close>, so that a division by zero shows in the result.
  \<^verbatim>\<open>
  m_gate.alphaExpr = f'1e3 * 0.1 * (25 - 1e3 * (v - ({EREST_ACT})))/(exp((25 - 1e3 * (v - ({EREST_ACT})))/10) - 1)'
  m_gate.betaExpr =  f'1e3 * 4 * exp(- 1e3 * (v - ({EREST_ACT}))/ 18)'
  h_gate.alphaExpr = f'1e3 * 0.07 * exp(- 1e3 * (v - ({EREST_ACT}))/ 20)'
  h_gate.betaExpr = f'1e3 / (exp((30 - 1e3 * (v - ({EREST_ACT}))) / 10) + 1)'
  n_gate.alphaExpr = f'1e3 * 0.01 * (10 - 1e3 * (v - ({EREST_ACT}))) / (exp((10 - 1e3 * (v - ({EREST_ACT})))/10) - 1)'
  n_gate.betaExpr = f'1e3 * 0.125 * exp(-1e3 * (v - ({EREST_ACT})) / 80)'
  \<close>
\<close>

definition expr_div :: "real \<Rightarrow> real \<Rightarrow> real option" where
  "expr_div a b = (if b = 0 then None else Some (a / b))"

definition m_gate_alphaExpr :: "real \<Rightarrow> real option" where
  "m_gate_alphaExpr v =
     (case expr_div (25 - 1000 * (v - EREST_ACT)) 10 of
        None \<Rightarrow> None
      | Some q \<Rightarrow> expr_div (1000 * (1 / 10) * (25 - 1000 * (v - EREST_ACT))) (exp q - 1))"

definition m_gate_betaExpr :: "real \<Rightarrow> real option" where
  "m_gate_betaExpr v =
     (case expr_div (- 1000 * (v - EREST_ACT)) 18 of
        None \<Rightarrow> None
      | Some q \<Rightarrow> Some (1000 * 4 * exp q))"

definition h_gate_alphaExpr :: "real \<Rightarrow> real option" where
  "h_gate_alphaExpr v =
     (case expr_div (- 1000 * (v - EREST_ACT)) 20 of
        None \<Rightarrow> None
      | Some q \<Rightarrow> Some (1000 * (7 / 100) * exp q))"

definition h_gate_betaExpr :: "real \<Rightarrow> real option" where
  "h_gate_betaExpr v =
     (case expr_div (30 - 1000 * (v - EREST_ACT)) 10 of
        None \<Rightarrow> None
      | Some q \<Rightarrow> expr_div 1000 (exp q + 1))"

definition n_gate_alphaExpr :: "real \<Rightarrow> real option" where
  "n_gate_alphaExpr v =
     (case expr_div (10 - 1000 * (v - EREST_ACT)) 10 of
        None \<Rightarrow> None
      | Some q \<Rightarrow> expr_div (1000 * (1 / 100) * (10 - 1000 * (v - EREST_ACT))) (exp q - 1))"

definition n_gate_betaExpr :: "real \<Rightarrow> real option" where
  "n_gate_betaExpr v =
     (case expr_div (- 1000 * (v - EREST_ACT)) 80 of
        None \<Rightarrow> None
      | Some q \<Rightarrow> Some (1000 * (125 / 1000) * exp q))"

text \<open>The table settings of the loop over the gates: \<open>min = -110e-3\<close>, \<open>max = 50e-3\<close>, \<open>divs = 1000\<close>.\<close>

definition gate_min :: real where
  "gate_min = - 110 / 1000"

definition gate_max :: real where
  "gate_max = 50 / 1000"

definition gate_divs :: nat where
  "gate_divs = 1000"

text \<open>
  Modelled from the spec: the sampling grid of a gate table. The engine method
  \<open>fillFromExpr\<close> (and the spec's \<open>build_table\<close>) is not part of the notebooks; the spec
  says it samples alpha and beta at \<open>divisions + 1\<close> evenly spaced voltages spanning
  \<open>[v_min, v_max]\<close>. Sample \<open>i\<close> is at \<open>v_min + i * (v_max - v_min) / divisions\<close>.
\<close>

definition sample_voltage :: "real \<Rightarrow> real \<Rightarrow> nat \<Rightarrow> nat \<Rightarrow> real" where
  "sample_voltage vmin vmax divs i = vmin + real i * ((vmax - vmin) / real divs)"

text \<open>
  Modelled from the spec: \<open>fillFromExpr\<close>, the engine method that fills the two tables
  of a gate by evaluating its alpha and beta expressions at every sample voltage.
\<close>

definition fillFromExpr ::
  "(real \<Rightarrow> real option) \<Rightarrow> (real \<Rightarrow> real option) \<Rightarrow> real \<Rightarrow> real \<Rightarrow> nat \<Rightarrow>
     (real option \<times> real option) list" where
  "fillFromExpr alpha beta vmin vmax divs =
     map (\<lambda>i. (alpha (sample_voltage vmin vmax divs i), beta (sample_voltage vmin vmax divs i)))
       [0..<divs + 1]"

section \<open>Gate interpolation tables (spec 4.2)\<close>

text \<open>
  Modelled from the spec: the one error of the spec's taxonomy (section 7), raised for
  invalid physical or numerical input. Nothing in the notebooks raises it.
\<close>

datatype spec_error = DomainError

text \<open>
  Modelled from the spec: the interpolation table of a gate (section 3), with its voltage
  domain, its number of divisions and the two sampled rate curves. In the notebooks the
  table is inside the engine's gate element.
\<close>

record InterpolationTable =
  v_min :: real
  v_max :: real
  divisions :: nat
  alpha_samples :: "real list"
  beta_samples :: "real list"

text \<open>
  Modelled from the spec: \<open>build_table\<close>, which the notebooks leave to the engine. It
  samples alpha and beta at \<open>divisions + 1\<close> evenly spaced voltages spanning
  \<open>[v_min, v_max]\<close>, stores both rate curves, and fails with \<open>DomainError\<close> if
  \<open>divisions < 1\<close> or \<open>v_max <= v_min\<close>.
\<close>

definition build_table ::
  "(real \<Rightarrow> real) \<Rightarrow> (real \<Rightarrow> real) \<Rightarrow> real \<Rightarrow> real \<Rightarrow> nat \<Rightarrow> spec_error + InterpolationTable" where
  "build_table alpha_fn beta_fn vmin vmax divs =
     (if divs < 1 \<or> vmax \<le> vmin then Inl DomainError
      else Inr \<lparr> v_min = vmin, v_max = vmax, divisions = divs,
                 alpha_samples = map (\<lambda>i. alpha_fn (sample_voltage vmin vmax divs i)) [0..<divs + 1],
                 beta_samples = map (\<lambda>i. beta_fn (sample_voltage vmin vmax divs i)) [0..<divs + 1] \<rparr>)"

text \<open>
  Modelled from the spec: \<open>interpolate\<close>, which the notebooks leave to the engine
  (\<open>useInterpolation = True\<close>). It clamps the voltage to \<open>[v_min, v_max]\<close> and then
  interpolates linearly between the two nearest sample points: with the clamped voltage
  at position \<open>pos\<close> on the grid, these are the samples \<open>\<lfloor>pos\<rfloor>\<close> and \<open>\<lfloor>pos\<rfloor> + 1\<close>; at the
  last grid point there is no next sample and the last sample is the value. On a table
  that \<open>build_table\<close> returned the grid spacing is positive and every index read is
  within the samples.
\<close>

definition clamp :: "real \<Rightarrow> real \<Rightarrow> real \<Rightarrow> real" where
  "clamp lo hi v = (if v < lo then lo else if hi < v then hi else v)"

definition lerp :: "real list \<Rightarrow> nat \<Rightarrow> nat \<Rightarrow> real \<Rightarrow> real" where
  "lerp samples divs i w =
     (if divs \<le> i then samples ! divs
      else samples ! i + w * (samples ! (i + 1) - samples ! i))"

definition interpolate :: "InterpolationTable \<Rightarrow> real \<Rightarrow> real \<times> real" where
  "interpolate table voltage =
     (let v = clamp (v_min table) (v_max table) voltage;
          pos = (v - v_min table) / ((v_max table - v_min table) / real (divisions table));
          i = nat \<lfloor>pos\<rfloor>;
          w = pos - real i
      in (lerp (alpha_samples table) (divisions table) i w,
          lerp (beta_samples table) (divisions table) i w))"

section \<open>Spike detection (spec 4.4)\<close>

text \<open>
  Modelled from the spec: the two states of a spike detector and the detector itself
  (threshold, the delay added to an event's time stamp, and the state). The notebook only
  creates the engine's \<open>SpikeGen\<close> and connects the compartment's \<open>VmOut\<close> to it; what
  the detector does with a sample is the engine's.
\<close>

datatype detector_state = BELOW_THRESHOLD | ABOVE_THRESHOLD

record SpikeDetector =
  threshold :: real
  delay :: real
  state :: detector_state

text \<open>
  Modelled from the spec: one sampling step of the detector, absent from the notebooks
  like the detector. From \<open>BELOW_THRESHOLD\<close> a sampled voltage strictly above
  the threshold moves to \<open>ABOVE_THRESHOLD\<close> and emits one event stamped with the current
  time plus the delay; from \<open>ABOVE_THRESHOLD\<close> a voltage below the threshold moves back
  and emits nothing; otherwise nothing happens.
\<close>

definition sample :: "SpikeDetector \<Rightarrow> real \<Rightarrow> real \<Rightarrow> SpikeDetector \<times> real list" where
  "sample d t v =
     (case state d of
        BELOW_THRESHOLD \<Rightarrow>
          (if threshold d < v then (d\<lparr>state := ABOVE_THRESHOLD\<rparr>, [t + delay d]) else (d, []))
      | ABOVE_THRESHOLD \<Rightarrow>
          (if v < threshold d then (d\<lparr>state := BELOW_THRESHOLD\<rparr>, []) else (d, [])))"

text \<open>
  Modelled from the spec: the simulator's loop as far as the detector goes (4.5, step 1),
  absent from the notebooks: the detector is fed the \<open>(time, voltage)\<close> samples of a
  trace in order, and the events it emits are collected.
\<close>

fun run :: "SpikeDetector \<Rightarrow> (real \<times> real) list \<Rightarrow> SpikeDetector \<times> real list" where
  "run d [] = (d, [])"
| "run d ((t, v) # trace) =
     (case sample d t v of
        (d', ev) \<Rightarrow> (case run d' trace of (d'', evs) \<Rightarrow> (d'', ev @ evs)))"

definition spike_events :: "SpikeDetector \<Rightarrow> (real \<times> real) list \<Rightarrow> real list" where
  "spike_events d trace = snd (run d trace)"

text \<open>
  Modelled from the spec: what the spec counts the events against, the upward crossings
  of a voltage sequence. They are counted here without the state machine: among
  the samples that are not exactly at the threshold, the adjacent pairs that go from
  below to above. \<open>side_sample\<close> stands for the voltage before the trace began, on the
  side the detector's state records.
\<close>

definition upward_crossings :: "real \<Rightarrow> real list \<Rightarrow> nat" where
  "upward_crossings thr vs =
     (let ws = filter (\<lambda>v. v \<noteq> thr) vs
      in length (filter (\<lambda>(a, b). a < thr \<and> thr < b) (zip ws (tl ws))))"

definition side_sample :: "SpikeDetector \<Rightarrow> real" where
  "side_sample d =
     (case state d of BELOW_THRESHOLD \<Rightarrow> threshold d - 1 | ABOVE_THRESHOLD \<Rightarrow> threshold d + 1)"

text \<open>
  Modelled from the spec: oversampling, the spec's "repeated sampling while the voltage
  stays on the same side". Sampling \<open>k\<close> times as fast: every sample \<open>(t, v)\<close> of the trace becomes \<open>k\<close> samples of
  the same voltage at the times \<open>t, t + dt, ..., t + (k - 1) * dt\<close>.
\<close>

definition hold :: "nat \<Rightarrow> real \<Rightarrow> real \<times> real \<Rightarrow> (real \<times> real) list" where
  "hold k dt p = map (\<lambda>j. (fst p + real j * dt, snd p)) [0..<k]"

definition oversample :: "nat \<Rightarrow> real \<Rightarrow> (real \<times> real) list \<Rightarrow> (real \<times> real) list" where
  "oversample k dt trace = concat (map (hold k dt) trace)"

section \<open>Double-exponential synaptic kernel (spec 4.4)\<close>

text \<open>
  The notebook only assigns \<open>tau1\<close> and \<open>tau2\<close> of the engine's \<open>SynChan\<close>; the kernel
  and its normalization are the engine's. In the four definitions below, where a formula
  of the spec divides by zero or takes the logarithm of a number that is not positive,
  the value is \<open>None\<close>: the spec names no result for these inputs.
\<close>

text \<open>
  Modelled from the spec: the kernel before normalization, absent from the notebooks,
  \<open>e^(-t / tau1) - e^(-t / tau2)\<close>.
\<close>

definition kernel :: "real \<Rightarrow> real \<Rightarrow> real \<Rightarrow> real option" where
  "kernel tau1 tau2 t =
     (if tau1 = 0 \<or> tau2 = 0 then None else Some (exp (- t / tau1) - exp (- t / tau2)))"

text \<open>
  Modelled from the spec: the time of the peak, absent from the notebooks,
  \<open>t_peak = (tau1 * tau2) / (tau2 - tau1) * ln (tau2 / tau1)\<close>.
\<close>

definition t_peak :: "real \<Rightarrow> real \<Rightarrow> real option" where
  "t_peak tau1 tau2 =
     (if tau2 - tau1 = 0 \<or> tau1 = 0 \<or> tau2 / tau1 \<le> 0 then None
      else Some ((tau1 * tau2) / (tau2 - tau1) * ln (tau2 / tau1)))"

text \<open>
  Modelled from the spec: the normalization constant, absent from the notebooks,
  \<open>normalization = 1 / (e^(-t_peak / tau1) - e^(-t_peak / tau2))\<close>.
\<close>

definition normalization :: "real \<Rightarrow> real \<Rightarrow> real option" where
  "normalization tau1 tau2 =
     (case t_peak tau1 tau2 of
        None \<Rightarrow> None
      | Some tp \<Rightarrow>
          (case kernel tau1 tau2 tp of
             None \<Rightarrow> None
           | Some k \<Rightarrow> if k = 0 then None else Some (1 / k)))"

text \<open>
  Modelled from the spec: the setup of the kernel, absent from the notebooks. It chooses
  the normalization once and fails with \<open>DomainError\<close> if \<open>tau1 == tau2\<close>.
\<close>

definition kernel_setup :: "real \<Rightarrow> real \<Rightarrow> spec_error + real option" where
  "kernel_setup tau1 tau2 =
     (if tau1 = tau2 then Inl DomainError else Inr (normalization tau1 tau2))"

section \<open>The prototype compartment (\<open>get_hh_proto\<close>)\<close>

text \<open>
  The engine keeps a tree of named elements; the notebook reaches them by path. The
  state the function works on is that tree, as a map from paths to elements (a class
  name and the assigned fields), and the list of messages added by \<open>moose.connect\<close>.
\<close>

type_synonym path = string

datatype fieldval =
    Num real
  | Str string
  | Flag bool
  | Tables "(real option \<times> real option) list"

record element =
  className :: string
  attrs :: "string \<rightharpoonup> fieldval"

record moose =
  elements :: "path \<rightharpoonup> element"
  messages :: "(path \<times> string \<times> path \<times> string) list"

text \<open>
  The engine calls the function makes, as far as the function depends on them:
  \<^item> \<open>moose.exists(p)\<close>: is there an element at \<open>p\<close>;
  \<^item> \<open>moose.Neutral(p)\<close>, \<open>moose.Compartment(p)\<close>, \<open>moose.HHChannel(p)\<close>: the element at
    \<open>p\<close>, created with that class if there is none (the notebook calls
    \<open>moose.Neutral('/library')\<close> on every call of \<open>get_hh_proto\<close>);
  \<^item> an assignment \<open>x.f = v\<close>: sets field \<open>f\<close> of the element;
  \<^item> \<open>moose.connect(a, fa, b, fb)\<close>: adds a message;
  \<^item> assigning \<open>Xpower\<close> or \<open>Ypower\<close> instantiates the gate element \<open>gateX\<close> or
    \<open>gateY\<close> under the channel (the comment in the source says so);
  \<^item> \<open>gate.fillFromExpr()\<close>: fills the gate's tables from its two expressions.
  \<open>moose.element(p)\<close> is the path itself.
\<close>

definition exists_path :: "moose \<Rightarrow> path \<Rightarrow> bool" where
  "exists_path s p = (elements s p \<noteq> None)"

definition create :: "string \<Rightarrow> path \<Rightarrow> moose \<Rightarrow> moose" where
  "create cls p s =
     (if exists_path s p then s
      else s\<lparr>elements := (elements s)(p \<mapsto> \<lparr>className = cls, attrs = Map.empty\<rparr>)\<rparr>)"

definition set_field :: "path \<Rightarrow> string \<Rightarrow> fieldval \<Rightarrow> moose \<Rightarrow> moose" where
  "set_field p f v s =
     (case elements s p of
        None \<Rightarrow> s
      | Some e \<Rightarrow> s\<lparr>elements := (elements s)(p \<mapsto> e\<lparr>attrs := (attrs e)(f \<mapsto> v)\<rparr>)\<rparr>)"

definition connect :: "path \<Rightarrow> string \<Rightarrow> path \<Rightarrow> string \<Rightarrow> moose \<Rightarrow> moose" where
  "connect src srcField dst dstField s =
     s\<lparr>messages := messages s @ [(src, srcField, dst, dstField)]\<rparr>"

definition set_power :: "path \<Rightarrow> string \<Rightarrow> string \<Rightarrow> real \<Rightarrow> moose \<Rightarrow> moose" where
  "set_power chan f gate n s =
     create ''HHGate'' (chan @ ''/'' @ gate) (set_field chan f (Num n) s)"

text \<open>
  The body of the loop \<open>for gate in (m_gate, h_gate, n_gate)\<close>; a gate comes with the
  two rate functions its expressions denote.
\<close>

definition setup_gate ::
  "moose \<Rightarrow> path \<times> (real \<Rightarrow> real option) \<times> (real \<Rightarrow> real option) \<Rightarrow> moose" where
  "setup_gate s g =
     (case g of (gate, alpha, beta) \<Rightarrow>
        (let s = set_field gate ''min'' (Num gate_min) s;
             s = set_field gate ''max'' (Num gate_max) s;
             s = set_field gate ''divs'' (Num (real gate_divs)) s;
             s = set_field gate ''useInterpolation'' (Flag True) s
         in set_field gate ''tables''
              (Tables (fillFromExpr alpha beta gate_min gate_max gate_divs)) s))"

text \<open>The part of \<open>get_hh_proto\<close> after the existence check, in the order of the source.\<close>

definition make_proto :: "path \<Rightarrow> moose \<Rightarrow> moose" where
  "make_proto comp_path s0 =
     (let proto_comp = comp_path;
          s = create ''Compartment'' proto_comp s0;
          sarea = pi * DIA * DIA;
          s = set_field proto_comp ''Em'' (Num (EREST_ACT + 10613 / 1000000)) s;
          s = set_field proto_comp ''initVm'' (Num EREST_ACT) s;
          s = set_field proto_comp ''Cm'' (Num (1 / 100 * sarea)) s;
          s = set_field proto_comp ''Rm'' (Num (1 / (10 * (3 / 10) * sarea))) s;
          na_chan = proto_comp @ ''/Na'';
          s = create ''HHChannel'' na_chan s;
          k_chan = proto_comp @ ''/K'';
          s = create ''HHChannel'' k_chan s;
          s = connect na_chan ''channel'' proto_comp ''channel'' s;
          s = connect k_chan ''channel'' proto_comp ''channel'' s;
          s = set_field na_chan ''Ek'' (Num ENa) s;
          s = set_field na_chan ''Gbar'' (Num (10 * 120 * sarea)) s;
          s = set_field k_chan ''Ek'' (Num EK) s;
          s = set_field k_chan ''Gbar'' (Num (10 * 36 * sarea)) s;
          s = set_power na_chan ''Xpower'' ''gateX'' 3 s;
          s = set_power na_chan ''Ypower'' ''gateY'' 1 s;
          m_gate = na_chan @ ''/gateX'';
          h_gate = na_chan @ ''/gateY'';
          s = set_power k_chan ''Xpower'' ''gateX'' 4 s;
          n_gate = k_chan @ ''/gateX'';
          s = set_field m_gate ''alphaExpr''
                (Str ''1e3 * 0.1 * (25 - 1e3 * (v - (-0.07)))/(exp((25 - 1e3 * (v - (-0.07)))/10) - 1)'') s;
          s = set_field m_gate ''betaExpr''
                (Str ''1e3 * 4 * exp(- 1e3 * (v - (-0.07))/ 18)'') s;
          s = set_field h_gate ''alphaExpr''
                (Str ''1e3 * 0.07 * exp(- 1e3 * (v - (-0.07))/ 20)'') s;
          s = set_field h_gate ''betaExpr''
                (Str ''1e3 / (exp((30 - 1e3 * (v - (-0.07))) / 10) + 1)'') s;
          s = set_field n_gate ''alphaExpr''
                (Str ''1e3 * 0.01 * (10 - 1e3 * (v - (-0.07))) / (exp((10 - 1e3 * (v - (-0.07)))/10) - 1)'') s;
          s = set_field n_gate ''betaExpr''
                (Str ''1e3 * 0.125 * exp(-1e3 * (v - (-0.07)) / 80)'') s
      in foldl setup_gate s
           [(m_gate, m_gate_alphaExpr, m_gate_betaExpr),
            (h_gate, h_gate_alphaExpr, h_gate_betaExpr),
            (n_gate, n_gate_alphaExpr, n_gate_betaExpr)])"

text \<open>
  \<^verbatim>\<open>
  def get_hh_proto():
      lib = moose.Neutral('/library')
      comp_path = f'{lib.path}/comp'
      if moose.exists(comp_path):
          return moose.element(comp_path)
      # Make a prototype compartment
      ...
      return proto_comp
  \<close>
  The function returns the compartment (its path) and leaves the engine in a new state.
\<close>

definition get_hh_proto :: "moose \<Rightarrow> path \<times> moose" where
  "get_hh_proto s0 =
     (let lib = ''/library'';
          s = create ''Neutral'' lib s0;
          comp_path = lib @ ''/comp''
      in if exists_path s comp_path then (comp_path, s)
         else (comp_path, make_proto comp_path s))"

text \<open>The result of a call followed by \<open>n\<close> further calls.\<close>

fun repeat_calls :: "nat \<Rightarrow> path \<times> moose \<Rightarrow> path \<times> moose" where
  "repeat_calls 0 r = r"
| "repeat_calls (Suc n) r = repeat_calls n (get_hh_proto (snd r))"

section \<open>Properties of the equilibrium potentials\<close>

lemma F_pos: "0 < F"
  by (simp add: F_def)

lemma R_pos: "0 < R"
  by (simp add: R_def)



subsection \<open>The Nernst cell\<close>

lemma float_bounds: "float_underflow < 1 / 10 ^ 300" "10 ^ 300 < float_overflow" "0 < float_underflow"
  by (simp_all add: float_underflow_def float_overflow_def)

lemma float_margins:
  "float_underflow < 1 / 2 ^ 1021" "2 ^ 1023 < float_overflow"
  "(1 :: real) / 2 ^ 1021 \<le> 1 / 10 ^ 300" "(10 :: real) ^ 300 \<le> 2 ^ 1023"
  by (simp_all add: float_underflow_def float_overflow_def)

lemma fl_zero: "fl 0 = Fin 0"
  using float_bounds by (simp add: fl_def)

lemma fl_in_float_range: "in_float_range x \<Longrightarrow> fl x = Fin x"
proof (cases "x = 0")
  case True
  then show ?thesis by (simp add: fl_zero)
next
  case False
  assume "in_float_range x"
  then have "1 / 2 ^ 1021 \<le> \<bar>x\<bar>" "\<bar>x\<bar> \<le> 2 ^ 1023"
    using False by (simp_all add: in_float_range_def)
  then have "float_underflow < \<bar>x\<bar>" "\<bar>x\<bar> < float_overflow"
    using float_margins(1,2) by linarith+
  then show ?thesis
    by (auto simp: fl_def)
qed

lemma in_float_range_minus: "in_float_range (- x) \<longleftrightarrow> in_float_range x"
  by (simp add: in_float_range_def)

lemma in_float_range_moderate:
  assumes "1 / 10 ^ 300 \<le> \<bar>x\<bar>" and "\<bar>x\<bar> \<le> 10 ^ 300"
  shows "in_float_range x"
  using assms float_margins(3,4) unfolding in_float_range_def by linarith

lemma fl_finite: "\<bar>x\<bar> < float_overflow \<Longrightarrow> \<exists>y. fl x = Fin y \<and> \<bar>y\<bar> < float_overflow"
  using float_bounds by (auto simp: fl_def)

lemma fl_not_zero: "float_underflow < \<bar>x\<bar> \<Longrightarrow> fl x \<noteq> Fin 0"
  using float_bounds(3) by (auto simp: fl_def)

lemma float_of_int_Inr: "\<bar>real_of_int z\<bar> < float_overflow \<Longrightarrow> float_of_int z = Inr (Fin (real_of_int z))"
  by (simp add: float_of_int_def)

lemma float_truediv_raises: "float_truediv a b = Inl e \<longleftrightarrow> b = Fin 0 \<and> e = ZeroDivisionError"
  by (auto simp: float_truediv_def split: npfloat.splits)

lemma float_truediv_not_raises: "b \<noteq> Fin 0 \<Longrightarrow> \<exists>c. float_truediv a b = Inr c"
  by (cases "float_truediv a b") (auto simp: float_truediv_raises)

lemma valence_times_F:
  assumes "z \<noteq> 0"
  shows "float_underflow < \<bar>real_of_int z * F\<bar>"
proof -
  have "1 \<le> \<bar>real_of_int z\<bar>"
    using assms by (simp add: abs_if)
  moreover have "1 \<le> F"
    by (simp add: F_def)
  ultimately have "1 * 1 \<le> \<bar>real_of_int z\<bar> * F"
    by (intro mult_mono) simp_all
  then have "1 \<le> \<bar>real_of_int z * F\<bar>"
    using F_pos by (simp add: abs_mult)
  moreover have "float_underflow < 1"
    by (simp add: float_underflow_def)
  ultimately show ?thesis
    by linarith
qed

lemma ek_steps:
  assumes "float_of_int z = Inr zf"
    and "float_truediv (float_mul (Fin (- R)) (Fin T)) (float_mul zf (Fin F)) = Inr c"
  shows "ek z Cin Cout T =
           (case float_truediv (Fin Cin) (Fin Cout) of
              Inl e \<Rightarrow> Inl e
            | Inr q \<Rightarrow> Inr (float_mul c (float_log q)))"
  using assms by (simp add: ek_def del: float_mul.simps)

lemma ek_raises:
  "(ek z Cin Cout T = Inl OverflowError \<longleftrightarrow> float_overflow \<le> \<bar>real_of_int z\<bar>) \<and>
   (ek z Cin Cout T = Inl ZeroDivisionError \<longleftrightarrow>
      (z = 0 \<or> (\<bar>real_of_int z\<bar> < float_overflow \<and> Cout = 0)))"
proof (cases "float_overflow \<le> \<bar>real_of_int z\<bar>")
  case True
  moreover have "z \<noteq> 0"
    using True float_bounds(2) by auto
  ultimately show ?thesis
    by (simp add: ek_def float_of_int_def)
next
  case False
  then have conv: "float_of_int z = Inr (Fin (real_of_int z))"
    by (simp add: float_of_int_def)
  show ?thesis
  proof (cases "z = 0")
    case True
    have "float_truediv (float_mul (Fin (- R)) (Fin T)) (float_mul (Fin 0) (Fin F)) = Inl ZeroDivisionError"
      by (simp add: float_truediv_raises fl_zero)
    then show ?thesis
      using True False by (simp add: ek_def float_of_int_def del: float_mul.simps)
  next
    case nz: False
    have "float_mul (Fin (real_of_int z)) (Fin F) \<noteq> Fin 0"
      using fl_not_zero [OF valence_times_F [OF nz]] by simp
    then obtain c where c: "float_truediv (float_mul (Fin (- R)) (Fin T)) (float_mul (Fin (real_of_int z)) (Fin F)) = Inr c"
      using float_truediv_not_raises by blast
    note steps = ek_steps [OF conv c, of Cin Cout]
    show ?thesis
    proof (cases "Cout = 0")
      case True
      have d: "float_truediv (Fin Cin) (Fin Cout) = Inl ZeroDivisionError"
        using True by (simp add: float_truediv_raises)
      have "ek z Cin Cout T = Inl ZeroDivisionError"
        unfolding steps d by simp
      then show ?thesis
        using False True by simp
    next
      case c0: False
      then obtain q where q: "float_truediv (Fin Cin) (Fin Cout) = Inr q"
        using float_truediv_not_raises [of "Fin Cout" "Fin Cin"] by auto
      have "ek z Cin Cout T = Inr (float_mul c (float_log q))"
        unfolding steps q by simp
      then show ?thesis
        using False nz c0 by simp
    qed
  qed
qed

lemma valence_convertible:
  assumes "in_float_range (real_of_int z * F)"
  shows "\<bar>real_of_int z\<bar> < float_overflow"
proof -
  have "\<bar>real_of_int z\<bar> * 1 \<le> \<bar>real_of_int z\<bar> * F"
    by (intro mult_left_mono) (simp_all add: F_def)
  moreover have "\<bar>real_of_int z * F\<bar> < float_overflow"
    using assms float_margins(2) float_bounds(2) by (auto simp: in_float_range_def)
  ultimately show ?thesis
    using F_pos by (simp add: abs_mult)
qed

lemma ek_in_range:
  assumes "z \<noteq> 0" and "Cout \<noteq> 0" and "0 < Cin / Cout"
    and "in_float_range (R * T)"
    and "in_float_range (real_of_int z * F)"
    and "in_float_range (R * T / (real_of_int z * F))"
    and "in_float_range (Cin / Cout)"
    and "in_float_range (- (R * T) / (real_of_int z * F) * ln (Cin / Cout))"
  shows "ek z Cin Cout T = Inr (Fin (- (R * T) / (real_of_int z * F) * ln (Cin / Cout)))"
proof -
  have conv: "float_of_int z = Inr (Fin (real_of_int z))"
    by (rule float_of_int_Inr) (rule valence_convertible [OF assms(5)])
  have a: "float_mul (Fin (- R)) (Fin T) = Fin (- (R * T))"
    using fl_in_float_range [of "- (R * T)"] assms(4) by (simp add: in_float_range_minus)
  have b: "float_mul (Fin (real_of_int z)) (Fin F) = Fin (real_of_int z * F)"
    using fl_in_float_range [OF assms(5)] by simp
  have nz: "real_of_int z * F \<noteq> 0"
    using assms(1) F_pos by simp
  have "in_float_range (- (R * T) / (real_of_int z * F))"
    using assms(6) in_float_range_minus [of "R * T / (real_of_int z * F)"] by simp
  then have c: "float_truediv (Fin (- (R * T))) (Fin (real_of_int z * F)) =
      Inr (Fin (- (R * T) / (real_of_int z * F)))"
    using nz by (simp add: float_truediv_def fl_in_float_range)
  have q: "float_truediv (Fin Cin) (Fin Cout) = Inr (Fin (Cin / Cout))"
    using assms(2) by (simp add: float_truediv_def fl_in_float_range [OF assms(7)])
  have l: "float_log (Fin (Cin / Cout)) = Fin (ln (Cin / Cout))"
    using assms(3) by (simp add: float_log_def)
  have k: "float_truediv (float_mul (Fin (- R)) (Fin T)) (float_mul (Fin (real_of_int z)) (Fin F)) =
      Inr (Fin (- (R * T) / (real_of_int z * F)))"
    unfolding a b by (rule c)
  have "ek z Cin Cout T =
      Inr (float_mul (Fin (- (R * T) / (real_of_int z * F))) (Fin (ln (Cin / Cout))))"
    by (simp only: ek_steps [OF conv k] q sum.case l)
  then show ?thesis
    by (simp only: float_mul.simps fl_in_float_range [OF assms(8)])
qed

lemma coefficient_finite:
  assumes "z \<noteq> 0" and "0 < T" and "R * T < float_overflow"
  shows "\<exists>c. float_truediv (float_mul (Fin (- R)) (Fin T)) (float_mul (Fin (real_of_int z)) (Fin F))
           = Inr (Fin c)"
proof -
  have "\<bar>- R * T\<bar> < float_overflow"
    using assms(2,3) R_pos by (simp add: abs_mult)
  then obtain a where a: "fl (- R * T) = Fin a" "\<bar>a\<bar> < float_overflow"
    using fl_finite by blast
  have big: "1 \<le> \<bar>real_of_int z * F\<bar>"
  proof -
    have "1 \<le> \<bar>real_of_int z\<bar>"
      using assms(1) by (simp add: abs_if)
    moreover have "1 \<le> F"
      by (simp add: F_def)
    ultimately have "1 * 1 \<le> \<bar>real_of_int z\<bar> * F"
      by (intro mult_mono) simp_all
    then show ?thesis
      using F_pos by (simp add: abs_mult)
  qed
  show ?thesis
  proof (cases "fl (real_of_int z * F)")
    case (Fin y)
    have y: "y = real_of_int z * F"
      using Fin fl_not_zero [OF valence_times_F [OF assms(1)]] 
      by (auto simp: fl_def split: if_splits)
    have "\<bar>a / y\<bar> \<le> \<bar>a\<bar>"
      using big unfolding y by (simp add: divide_le_eq abs_mult mult_le_cancel_left1)
    then have "\<bar>a / y\<bar> < float_overflow"
      using a(2) by linarith
    then obtain c where "fl (a / y) = Fin c"
      using fl_finite by blast
    moreover have "y \<noteq> 0"
      using big y by auto
    ultimately show ?thesis
      using a(1) Fin by (simp add: float_truediv_def)
  next
    case PInf
    then show ?thesis using a(1) by (simp add: float_truediv_def)
  next
    case NInf
    then show ?thesis using a(1) by (simp add: float_truediv_def)
  next
    case NaN
    then show ?thesis by (simp add: fl_def split: if_splits)
  qed
qed

lemma ek_equal:
  assumes "z \<noteq> 0" and "\<bar>real_of_int z\<bar> < float_overflow" and "0 < c" and "0 < T"
    and "R * T < float_overflow"
  shows "ek z c c T = Inr (Fin 0)"
proof -
  obtain k where k: "float_truediv (float_mul (Fin (- R)) (Fin T))
      (float_mul (Fin (real_of_int z)) (Fin F)) = Inr (Fin k)"
    using coefficient_finite [OF assms(1,4,5)] by blast
  have one: "fl 1 = Fin 1"
    by (rule fl_in_float_range) (rule in_float_range_moderate, simp_all)
  have q: "float_truediv (Fin c) (Fin c) = Inr (Fin 1)"
    using assms(3) by (simp add: float_truediv_def one)
  have "ek z c c T = Inr (float_mul (Fin k) (float_log (Fin 1)))"
    using ek_steps [OF float_of_int_Inr [OF assms(2)] k, of c c] unfolding q by simp
  then show ?thesis
    by (simp add: float_log_def fl_zero)
qed

lemma nernst_cell_effects:
  assumes "ek z Cin Cout T = Inr v"
  shows "snd (nernst_cell z Cin Cout T s) = Inr v"
    and "stdout (fst (nernst_cell z Cin Cout T s)) = stdout s @ [v]"
    and "globals (fst (nernst_cell z Cin Cout T s)) =
           (globals s)(''np'' \<mapsto> PyModule ''numpy'', ''R'' \<mapsto> PyFloat (Fin R),
             ''T'' \<mapsto> PyFloat (Fin T), ''z'' \<mapsto> PyInt z, ''F'' \<mapsto> PyFloat (Fin F),
             ''Cin'' \<mapsto> PyFloat (Fin Cin), ''Cout'' \<mapsto> PyFloat (Fin Cout), ''ek'' \<mapsto> PyFloat v)"
  using assms by (simp_all add: nernst_cell_def Let_def assign_def print_def)

lemma ln_28_bounds: "1 \<le> ln (28 :: real)" "ln (28 :: real) \<le> 27"
proof -
  have "exp (1 :: real) \<le> 1 + 1 + 1\<^sup>2"
    by (rule exp_bound) simp_all
  then have "exp (1 :: real) \<le> 28"
    by simp
  then show "1 \<le> ln (28 :: real)"
    by (simp add: ln_ge_iff)
  show "ln (28 :: real) \<le> 27"
    using ln_le_minus_one [of "28 :: real"] by simp
qed

lemma huge_valence:
  "(10 ^ 400 :: int) \<noteq> 0" "float_overflow \<le> \<bar>real_of_int (10 ^ 400)\<bar>"
  by (simp_all add: float_overflow_def)

text \<open>
  The inputs of the cell as the notebook has them (\<open>z = 1\<close>, \<open>Cin = 140\<close>, \<open>Cout = 5\<close>,
  \<open>T = 310.15\<close>): every intermediate result is well inside the float range.
\<close>

lemma body_temperature_in_range:
  "in_float_range (R * (31015 / 100))"
  "in_float_range (real_of_int 1 * F)"
  "in_float_range (R * (31015 / 100) / (real_of_int 1 * F))"
  "in_float_range (140 / 5 :: real)"
  "in_float_range (- (R * (31015 / 100)) / (real_of_int 1 * F) * ln (140 / 5))"
proof -
  show "in_float_range (R * (31015 / 100))"
    by (rule in_float_range_moderate) (simp_all add: R_def)
  show "in_float_range (real_of_int 1 * F)"
    by (rule in_float_range_moderate) (simp_all add: F_def)
  show "in_float_range (R * (31015 / 100) / (real_of_int 1 * F))"
    by (rule in_float_range_moderate) (simp_all add: R_def F_def)
  show "in_float_range (140 / 5 :: real)"
    by (rule in_float_range_moderate) simp_all
  define x :: real where "x = R * (31015 / 100) / F"
  have x: "x = 25785871 / 964853300"
    by (simp add: x_def R_def F_def)
  have "x * 1 \<le> x * ln 28" "x * ln 28 \<le> x * 27"
    using ln_28_bounds by (simp_all add: x)
  then have "1 / 10 ^ 300 \<le> \<bar>- (x * ln 28)\<bar>" "\<bar>- (x * ln 28)\<bar> \<le> 10 ^ 300"
    by (simp_all add: x)
  then have "in_float_range (- (x * ln 28))"
    by (rule in_float_range_moderate)
  then show "in_float_range (- (R * (31015 / 100)) / (real_of_int 1 * F) * ln (140 / 5))"
    by (simp add: x_def)
qed

text \<open>
  Claim C2, as the code has it. For every valence \<open>z \<noteq> 0\<close>, concentrations \<open>Cin > 0\<close>,
  \<open>Cout > 0\<close> and temperature \<open>T > 0\<close> for which every intermediate result (\<open>R * T\<close>,
  \<open>z * F\<close>, their quotient, \<open>Cin / Cout\<close> and the final product) is well inside the range
  of floats, the Nernst computation yields \<open>-(R * T) / (z * F) * ln (Cin / Cout)\<close>, a
  value that depends on these four arguments alone. The cell that computes it is not
  free of effects: it binds the module globals \<open>np\<close>, \<open>R\<close>, \<open>T\<close>, \<open>z\<close>, \<open>F\<close>, \<open>Cin\<close>,
  \<open>Cout\<close> and \<open>ek\<close>, and it prints the value.
\<close>

theorem ek_formula:
  fixes z :: int and Cin Cout T :: real and s :: pystate
  defines "v \<equiv> - (R * T) / (real_of_int z * F) * ln (Cin / Cout)"
  assumes "z \<noteq> 0" and "0 < Cin" and "0 < Cout" and "0 < T"
    and "in_float_range (R * T)"
    and "in_float_range (real_of_int z * F)"
    and "in_float_range (R * T / (real_of_int z * F))"
    and "in_float_range (Cin / Cout)"
    and "in_float_range (- (R * T) / (real_of_int z * F) * ln (Cin / Cout))"
  shows "ek z Cin Cout T = Inr (Fin v) \<and>
         snd (nernst_cell z Cin Cout T s) = Inr (Fin v) \<and>
         stdout (fst (nernst_cell z Cin Cout T s)) = stdout s @ [Fin v] \<and>
         globals (fst (nernst_cell z Cin Cout T s)) =
           (globals s)(''np'' \<mapsto> PyModule ''numpy'', ''R'' \<mapsto> PyFloat (Fin R),
             ''T'' \<mapsto> PyFloat (Fin T), ''z'' \<mapsto> PyInt z, ''F'' \<mapsto> PyFloat (Fin F),
             ''Cin'' \<mapsto> PyFloat (Fin Cin), ''Cout'' \<mapsto> PyFloat (Fin Cout),
             ''ek'' \<mapsto> PyFloat (Fin v))"
proof -
  have "Cout \<noteq> 0" and "0 < Cin / Cout"
    using assms(3,4) by simp_all
  then have e: "ek z Cin Cout T = Inr (Fin v)"
    unfolding v_def using assms(2,6-10) by (intro ek_in_range)
  show ?thesis
    using e nernst_cell_effects [OF e, of s] by simp
qed

theorem ek_formula_witness:
  "ek 1 140 5 (31015 / 100) =
     Inr (Fin (- (R * (31015 / 100)) / (real_of_int 1 * F) * ln (140 / 5))) \<and>
   stdout (fst (nernst_cell 1 140 5 (31015 / 100) \<lparr>globals = Map.empty, stdout = []\<rparr>)) =
     [Fin (- (R * (31015 / 100)) / (real_of_int 1 * F) * ln (140 / 5))]"
proof -
  have h: "(1 :: int) \<noteq> 0" "(0 :: real) < 140" "(0 :: real) < 5" "(0 :: real) < 31015 / 100"
    by simp_all
  from ek_formula [OF h body_temperature_in_range,
      of "\<lparr>globals = Map.empty, stdout = []\<rparr>"]
  show ?thesis
    by simp
qed

text \<open>
  The claim as stated fails twice. The valence \<open>10^400\<close> is not zero, but it is too large
  for a float and \<open>z * F\<close> raises \<open>OverflowError\<close>. And a run of the cell from an empty
  module leaves a printed line and the global \<open>ek\<close> behind.
\<close>

theorem ek_formula_counterexample:
  "(10 ^ 400 :: int) \<noteq> 0 \<and> (0 :: real) < 140 \<and> (0 :: real) < 5 \<and> (0 :: real) < 31015 / 100 \<and>
   ek (10 ^ 400) 140 5 (31015 / 100) = Inl OverflowError \<and>
   stdout (fst (nernst_cell 1 140 5 (31015 / 100) \<lparr>globals = Map.empty, stdout = []\<rparr>)) =
     [Fin (- (R * (31015 / 100)) / (real_of_int 1 * F) * ln (140 / 5))] \<and>
   globals (fst (nernst_cell 1 140 5 (31015 / 100) \<lparr>globals = Map.empty, stdout = []\<rparr>)) ''ek'' =
     Some (PyFloat (Fin (- (R * (31015 / 100)) / (real_of_int 1 * F) * ln (140 / 5))))"
proof -
  have e: "ek 1 140 5 (31015 / 100) =
      Inr (Fin (- (R * (31015 / 100)) / (real_of_int 1 * F) * ln (140 / 5)))"
    using body_temperature_in_range by (intro ek_in_range) simp_all
  have o: "ek (10 ^ 400) 140 5 (31015 / 100) = Inl OverflowError"
    using ek_raises [of "10 ^ 400" 140 5 "31015 / 100"] huge_valence(2) by blast
  have p: "(0 :: real) < 140" "(0 :: real) < 5" "(0 :: real) < 31015 / 100"
    by simp_all
  have g: "globals (fst (nernst_cell 1 140 5 (31015 / 100) \<lparr>globals = Map.empty, stdout = []\<rparr>)) ''ek'' =
      Some (PyFloat (Fin (- (R * (31015 / 100)) / (real_of_int 1 * F) * ln (140 / 5))))"
    by (simp only: nernst_cell_effects(3) [OF e] fun_upd_same)
  have t: "stdout (fst (nernst_cell 1 140 5 (31015 / 100) \<lparr>globals = Map.empty, stdout = []\<rparr>)) =
      [Fin (- (R * (31015 / 100)) / (real_of_int 1 * F) * ln (140 / 5))]"
    by (simp only: nernst_cell_effects(2) [OF e] pystate.simps append_Nil)
  from huge_valence(1) p o t g show ?thesis
    by blast
qed

text \<open>
  Claim C7, as the code has it. Equal inside and outside concentrations give exactly
  zero for every valence \<open>z \<noteq> 0\<close> that converts to a float (\<open>|z| < 2^1024 - 2^970\<close>), every
  \<open>c > 0\<close> and every \<open>T > 0\<close> for which \<open>R * T\<close> is at most \<open>2^1023\<close>, so that the product
  does not overflow (\<open>T\<close> up to about \<open>1.08e307\<close>).
\<close>

theorem ek_equal_concentrations:
  assumes "z \<noteq> 0" and "\<bar>real_of_int z\<bar> < float_overflow"
    and "0 < c" and "0 < T" and "R * T \<le> 2 ^ 1023"
  shows "ek z c c T = Inr (Fin 0)"
proof -
  have "R * T < float_overflow"
    using assms(5) float_margins(2) by linarith
  with assms(1-4) show ?thesis
    by (intro ek_equal)
qed

theorem ek_equal_concentrations_witness:
  "(- 1 :: int) \<noteq> 0 \<and> \<bar>real_of_int (- 1)\<bar> < float_overflow \<and> (0 :: real) < 3 / 2 \<and>
   (0 :: real) < 29315 / 100 \<and> R * (29315 / 100) \<le> 2 ^ 1023 \<and>
   ek (- 1) (3 / 2) (3 / 2) (29315 / 100) = Inr (Fin 0)"
proof -
  have h: "(- 1 :: int) \<noteq> 0" "\<bar>real_of_int (- 1)\<bar> < float_overflow" "(0 :: real) < 3 / 2"
    "(0 :: real) < 29315 / 100" "R * (29315 / 100) \<le> 2 ^ 1023"
    using float_bounds(2) by (simp_all add: R_def)
  from ek_equal_concentrations [OF h] h show ?thesis
    by blast
qed

text \<open>
  The claim as stated fails at the float \<open>T = 2^1023\<close>: \<open>-R * T\<close> overflows to \<open>-inf\<close>, the
  logarithm of \<open>c / c\<close> is zero, and their product is NaN, not zero.
\<close>

theorem ek_equal_concentrations_counterexample:
  "(1 :: int) \<noteq> 0 \<and> (0 :: real) < 1 \<and> (0 :: real) < 2 ^ 1023 \<and> ek 1 1 1 (2 ^ 1023) = Inr NaN"
  by (simp add: ek_def float_of_int_def float_truediv_def float_log_def fl_def inf_times_def
      float_overflow_def float_underflow_def R_def F_def)

text \<open>
  Claim C6, as the code has it. The Nernst computation validates nothing and knows no
  \<open>DomainError\<close>. It raises \<open>OverflowError\<close> exactly when the \<open>int\<close> valence is too large
  to convert to a float (\<open>|z| >= 2^1024 - 2^970\<close>), and \<open>ZeroDivisionError\<close>, at the
  division that meets the zero, exactly when the valence is zero or, the valence being
  convertible, the outside concentration is zero. On every other input it returns, also
  for \<open>Cin <= 0\<close> or \<open>Cout < 0\<close>.
\<close>

theorem ek_raises_iff:
  "(ek z Cin Cout T = Inl OverflowError \<longleftrightarrow> float_overflow \<le> \<bar>real_of_int z\<bar>) \<and>
   (ek z Cin Cout T = Inl ZeroDivisionError \<longleftrightarrow>
      (z = 0 \<or> (\<bar>real_of_int z\<bar> < float_overflow \<and> Cout = 0))) \<and>
   (isl (ek z Cin Cout T) \<longleftrightarrow>
      (z = 0 \<or> Cout = 0 \<or> float_overflow \<le> \<bar>real_of_int z\<bar>))"
proof -
  have "isl (ek z Cin Cout T) \<longleftrightarrow>
      ek z Cin Cout T = Inl OverflowError \<or> ek z Cin Cout T = Inl ZeroDivisionError"
    by (cases "ek z Cin Cout T") (auto intro: pyerror.exhaust)
  then show ?thesis
    using ek_raises [of z Cin Cout T] by auto
qed

theorem ek_raises_iff_witness:
  "ek 0 140 5 (31015 / 100) = Inl ZeroDivisionError \<and>
   ek 1 140 0 (31015 / 100) = Inl ZeroDivisionError \<and>
   ek (10 ^ 400) 140 5 (31015 / 100) = Inl OverflowError"
proof -
  have one: "\<bar>real_of_int 1\<bar> < float_overflow"
    using float_bounds(2) by simp
  have "ek 0 140 5 (31015 / 100) = Inl ZeroDivisionError"
    using ek_raises_iff [of 0 140 5 "31015 / 100"] by blast
  moreover have "ek 1 140 0 (31015 / 100) = Inl ZeroDivisionError"
    using ek_raises_iff [of 1 140 0 "31015 / 100"] one by blast
  moreover have "ek (10 ^ 400) 140 5 (31015 / 100) = Inl OverflowError"
    using ek_raises_iff [of "10 ^ 400" 140 5 "31015 / 100"] huge_valence(2) by blast
  ultimately show ?thesis
    by blast
qed

text \<open>
  The claim as stated fails: with \<open>Cin = -140\<close> and \<open>Cout = -5\<close> both concentrations are
  not positive, yet the computation returns a finite number instead of raising.
\<close>

theorem ek_no_DomainError_counterexample:
  "((- 140 :: real) \<le> 0 \<or> (- 5 :: real) \<le> 0 \<or> (1 :: int) = 0) \<and>
   ek 1 (- 140) (- 5) (31015/100) = Inr (Fin (- (R * (31015/100)) / F * ln 28))"
proof -
  have "ek 1 (- 140) (- 5) (31015 / 100) =
      Inr (Fin (- (R * (31015 / 100)) / (real_of_int 1 * F) * ln (- 140 / - 5)))"
    using body_temperature_in_range by (intro ek_in_range) simp_all
  then show ?thesis
    by simp
qed

subsection \<open>The Johnston and Wu example\<close>

text \<open>
  Bounds on the exponential from its Maclaurin expansion: for a negative argument the
  remainder after an odd number of terms is negative, after an even number of terms it
  is positive (for every argument).
\<close>

lemma exp_le_Maclaurin_15:
  fixes x :: real
  assumes "x < 0"
  shows "exp x \<le> (\<Sum>m<15. x ^ m / fact m)"
proof -
  obtain t where "exp x = (\<Sum>m<15. x ^ m / fact m) + (exp t / fact 15) * x ^ 15"
    using Maclaurin_exp_le [of x 15] by blast
  moreover have "x ^ 15 < 0"
    using assms by (simp add: power_less_zero_eq)
  then have "(exp t / fact 15) * x ^ 15 \<le> 0"
    by (intro mult_nonneg_nonpos) simp_all
  ultimately show ?thesis by linarith
qed

lemma Maclaurin_14_le_exp:
  fixes x :: real
  shows "(\<Sum>m<14. x ^ m / fact m) \<le> exp x"
proof -
  obtain t where "exp x = (\<Sum>m<14. x ^ m / fact m) + (exp t / fact 14) * x ^ 14"
    using Maclaurin_exp_le [of x 14] by blast
  moreover have "0 \<le> (exp t / fact 14) * x ^ 14"
    by simp
  ultimately show ?thesis by linarith
qed

lemma ln_JW_ratio_lower: "- 2798 / 1000 \<le> ln (278 / 4555 :: real)"
proof -
  have "exp (- 2798 / 1000 :: real) \<le> (\<Sum>m<15. (- 2798 / 1000) ^ m / fact m)"
    by (rule exp_le_Maclaurin_15) simp
  also have "\<dots> \<le> 278 / 4555"
    by (simp add: eval_nat_numeral)
  finally show ?thesis
    by (simp add: ln_ge_iff)
qed

lemma ln_JW_ratio_upper: "ln (278 / 4555 :: real) \<le> - 2792 / 1000"
proof -
  have "(278 / 4555 :: real) \<le> (\<Sum>m<14. (- 2792 / 1000) ^ m / fact m)"
    by (simp add: eval_nat_numeral)
  also have "\<dots> \<le> exp (- 2792 / 1000)"
    by (rule Maclaurin_14_le_exp)
  finally have "exp (ln (278 / 4555 :: real)) \<le> exp (- 2792 / 1000)"
    by simp
  then show ?thesis
    by (simp only: exp_le_cancel_iff)
qed

lemma GHK_V_JW_value:
  "GHK_V 400 10 50 460 40 540 1 (3/100) (1/10) (27315/100 + 20) =
     Inr (Fin ((R * (29315/100) / F) * ln (278 / 4555)))"
  by (simp add: GHK_V_def GHK_num_def GHK_den_def truediv_def np_log_def)

text \<open>
  Claim C8. At the Johnston and Wu parameters (\<open>K_in = 400\<close>, \<open>K_out = 10\<close>,
  \<open>Na_in = 50\<close>, \<open>Na_out = 460\<close>, \<open>Cl_in = 40\<close>, \<open>Cl_out = 540\<close>, permeabilities
  \<open>1 : 0.03 : 0.1\<close>, \<open>T = 273.15 + 20\<close>) \<open>GHK_V\<close> returns a value within \<open>1e-4\<close> of
  \<open>-0.0706\<close> volts.
\<close>

theorem GHK_V_Johnston_Wu:
  "\<exists>v. GHK_V 400 10 50 460 40 540 1 (3/100) (1/10) (27315/100 + 20) = Inr (Fin v) \<and>
       \<bar>v - (- 706 / 10000)\<bar> \<le> 1 / 10000"
proof -
  define c :: real where "c = R * (29315/100) / F"
  define l :: real where "l = ln (278 / 4555)"
  have c: "c = 24372491 / 964853300"
    by (simp add: c_def R_def F_def)
  have "c * (- 2798 / 1000) \<le> c * l"
    using ln_JW_ratio_lower unfolding l_def by (intro mult_left_mono) (simp_all add: c)
  moreover have "c * l \<le> c * (- 2792 / 1000)"
    using ln_JW_ratio_upper unfolding l_def by (intro mult_left_mono) (simp_all add: c)
  moreover have "- 707 / 10000 \<le> c * (- 2798 / 1000)" "c * (- 2792 / 1000) \<le> - 705 / 10000"
    by (simp_all add: c)
  ultimately have "\<bar>c * l - (- 706 / 10000)\<bar> \<le> 1 / 10000"
    by linarith
  then show ?thesis
    using GHK_V_JW_value unfolding c_def l_def by blast
qed

section \<open>Properties of the gate tables\<close>

lemma four_times_nat_ne_1625: "real i * 4 \<noteq> 1625"
proof
  assume "real i * 4 = 1625"
  then have "real (i * 4) = real 1625" by simp
  then have "i * 4 = 1625" by (simp only: of_nat_eq_iff)
  then show False by presburger
qed

lemma two_times_nat_ne_625: "real i * 2 \<noteq> 625"
proof
  assume "real i * 2 = 625"
  then have "real (i * 2) = real 625" by simp
  then have "i * 2 = 625" by (simp only: of_nat_eq_iff)
  then show False by presburger
qed

lemma gate_sample_voltage:
  "sample_voltage gate_min gate_max gate_divs i = - 110 / 1000 + real i * (16 / 100000)"
  by (simp add: sample_voltage_def gate_min_def gate_max_def gate_divs_def)

lemma m_gate_alphaExpr_on_grid:
  "m_gate_alphaExpr (sample_voltage gate_min gate_max gate_divs i) \<noteq> None"
  using four_times_nat_ne_1625 [of i]
  by (simp add: gate_sample_voltage m_gate_alphaExpr_def expr_div_def EREST_ACT_def)

lemma n_gate_alphaExpr_on_grid:
  "n_gate_alphaExpr (sample_voltage gate_min gate_max gate_divs i) \<noteq> None"
  using two_times_nat_ne_625 [of i]
  by (simp add: gate_sample_voltage n_gate_alphaExpr_def expr_div_def EREST_ACT_def)

lemma exp_plus_one_nonzero: "exp (x :: real) + 1 \<noteq> 0"
  using exp_gt_zero [of x] by linarith

lemma rate_exprs_total:
  "m_gate_betaExpr v \<noteq> None" "h_gate_alphaExpr v \<noteq> None"
  "h_gate_betaExpr v \<noteq> None" "n_gate_betaExpr v \<noteq> None"
  by (simp_all add: m_gate_betaExpr_def h_gate_alphaExpr_def h_gate_betaExpr_def
      n_gate_betaExpr_def expr_div_def exp_plus_one_nonzero)

lemma fillFromExpr_total:
  assumes "\<And>i. alpha (sample_voltage vmin vmax divs i) \<noteq> None" and "\<And>v. beta v \<noteq> None"
  shows "\<forall>(a, b) \<in> set (fillFromExpr alpha beta vmin vmax divs). a \<noteq> None \<and> b \<noteq> None"
  using assms by (simp add: fillFromExpr_def del: not_None_eq upt_Suc)

lemma singular_voltages_off_grid:
  "sample_voltage gate_min gate_max gate_divs i \<noteq> - 45 / 1000"
  "sample_voltage gate_min gate_max gate_divs i \<noteq> - 60 / 1000"
  using four_times_nat_ne_1625 [of i] two_times_nat_ne_625 [of i]
  by (simp_all add: gate_sample_voltage)

text \<open>
  Claim C9. Filling the tables of the gates \<open>m\<close>, \<open>h\<close> and \<open>n\<close> at the 1001 sample
  voltages of \<open>[-110 mV, 50 mV]\<close> (\<open>divs = 1000\<close>, spacing 0.16 mV) never divides by
  zero: every entry of every table is a value. The alpha expression of \<open>m\<close> does divide
  by zero at \<open>-45 mV\<close> and that of \<open>n\<close> at \<open>-60 mV\<close>, both inside the table range, but
  neither voltage is a sample voltage.
\<close>

theorem fillFromExpr_never_divides_by_zero:
  "(\<forall>(a, b) \<in> set (fillFromExpr m_gate_alphaExpr m_gate_betaExpr gate_min gate_max gate_divs).
      a \<noteq> None \<and> b \<noteq> None) \<and>
   (\<forall>(a, b) \<in> set (fillFromExpr h_gate_alphaExpr h_gate_betaExpr gate_min gate_max gate_divs).
      a \<noteq> None \<and> b \<noteq> None) \<and>
   (\<forall>(a, b) \<in> set (fillFromExpr n_gate_alphaExpr n_gate_betaExpr gate_min gate_max gate_divs).
      a \<noteq> None \<and> b \<noteq> None) \<and>
   length (fillFromExpr m_gate_alphaExpr m_gate_betaExpr gate_min gate_max gate_divs) = 1001 \<and>
   sample_voltage gate_min gate_max gate_divs (Suc i) - sample_voltage gate_min gate_max gate_divs i
     = 16 / 100000 \<and>
   m_gate_alphaExpr (- 45 / 1000) = None \<and> gate_min \<le> - 45 / 1000 \<and> - 45 / 1000 \<le> gate_max \<and>
   n_gate_alphaExpr (- 60 / 1000) = None \<and> gate_min \<le> - 60 / 1000 \<and> - 60 / 1000 \<le> gate_max \<and>
   - 45 / 1000 \<notin> set (map (sample_voltage gate_min gate_max gate_divs) [0..<gate_divs + 1]) \<and>
   - 60 / 1000 \<notin> set (map (sample_voltage gate_min gate_max gate_divs) [0..<gate_divs + 1])"
proof -
  have m: "\<forall>(a, b) \<in> set (fillFromExpr m_gate_alphaExpr m_gate_betaExpr gate_min gate_max gate_divs).
      a \<noteq> None \<and> b \<noteq> None"
    by (rule fillFromExpr_total) (rule m_gate_alphaExpr_on_grid rate_exprs_total)+
  have h: "\<forall>(a, b) \<in> set (fillFromExpr h_gate_alphaExpr h_gate_betaExpr gate_min gate_max gate_divs).
      a \<noteq> None \<and> b \<noteq> None"
    by (rule fillFromExpr_total) (rule rate_exprs_total)+
  have n: "\<forall>(a, b) \<in> set (fillFromExpr n_gate_alphaExpr n_gate_betaExpr gate_min gate_max gate_divs).
      a \<noteq> None \<and> b \<noteq> None"
    by (rule fillFromExpr_total) (rule n_gate_alphaExpr_on_grid rate_exprs_total)+
  have len: "length (fillFromExpr m_gate_alphaExpr m_gate_betaExpr gate_min gate_max gate_divs) = 1001"
    by (simp add: fillFromExpr_def gate_divs_def del: upt_Suc)
  have step: "sample_voltage gate_min gate_max gate_divs (Suc i)
      - sample_voltage gate_min gate_max gate_divs i = 16 / 100000"
    by (simp add: gate_sample_voltage algebra_simps)
  have sing: "m_gate_alphaExpr (- 45 / 1000) = None" "n_gate_alphaExpr (- 60 / 1000) = None"
    by (simp_all add: m_gate_alphaExpr_def n_gate_alphaExpr_def expr_div_def EREST_ACT_def)
  have range: "gate_min \<le> - 45 / 1000" "- 45 / 1000 \<le> gate_max"
    "gate_min \<le> - 60 / 1000" "- 60 / 1000 \<le> gate_max"
    by (simp_all add: gate_min_def gate_max_def)
  have off: "- 45 / 1000 \<notin> set (map (sample_voltage gate_min gate_max gate_divs) [0..<gate_divs + 1])"
    "- 60 / 1000 \<notin> set (map (sample_voltage gate_min gate_max gate_divs) [0..<gate_divs + 1])"
    using singular_voltages_off_grid [symmetric] by (simp_all only: set_map image_iff) blast+
  from m h n len step sing range off show ?thesis
    by blast
qed

theorem fillFromExpr_never_divides_by_zero_witness:
  "sample_voltage gate_min gate_max gate_divs 406 = - 4504 / 100000 \<and>
   m_gate_alphaExpr (sample_voltage gate_min gate_max gate_divs 406) \<noteq> None \<and>
   m_gate_betaExpr (sample_voltage gate_min gate_max gate_divs 406) \<noteq> None"
proof -
  have "(406 :: nat) \<in> set [0..<gate_divs + 1]"
    by (simp add: gate_divs_def del: upt_Suc)
  then have "(m_gate_alphaExpr (sample_voltage gate_min gate_max gate_divs 406),
         m_gate_betaExpr (sample_voltage gate_min gate_max gate_divs 406))
        \<in> set (fillFromExpr m_gate_alphaExpr m_gate_betaExpr gate_min gate_max gate_divs)"
    unfolding fillFromExpr_def set_map by (rule imageI)
  with fillFromExpr_never_divides_by_zero [of 0]
  have "m_gate_alphaExpr (sample_voltage gate_min gate_max gate_divs 406) \<noteq> None \<and>
        m_gate_betaExpr (sample_voltage gate_min gate_max gate_divs 406) \<noteq> None"
    by blast
  moreover have "sample_voltage gate_min gate_max gate_divs 406 = - 4504 / 100000"
    by (simp add: gate_sample_voltage)
  ultimately show ?thesis by blast
qed

section \<open>Properties of interpolation\<close>

lemma build_table_Inr:
  assumes "build_table alpha_fn beta_fn vmin vmax divs = Inr table"
  shows "1 \<le> divs" and "vmin < vmax"
    and "table = \<lparr> v_min = vmin, v_max = vmax, divisions = divs,
           alpha_samples = map (\<lambda>i. alpha_fn (sample_voltage vmin vmax divs i)) [0..<divs + 1],
           beta_samples = map (\<lambda>i. beta_fn (sample_voltage vmin vmax divs i)) [0..<divs + 1] \<rparr>"
  using assms by (auto simp: build_table_def split: if_splits)

lemma sample_voltage_ends:
  "sample_voltage vmin vmax divs 0 = vmin"
  "1 \<le> divs \<Longrightarrow> sample_voltage vmin vmax divs divs = vmax"
  by (simp_all add: sample_voltage_def)

lemma boundary_samples:
  assumes "build_table alpha_fn beta_fn vmin vmax divs = Inr table"
  shows "alpha_samples table ! 0 = alpha_fn vmin" and "beta_samples table ! 0 = beta_fn vmin"
    and "alpha_samples table ! divs = alpha_fn vmax" and "beta_samples table ! divs = beta_fn vmax"
  using build_table_Inr(1) [OF assms]
  by (simp_all add: build_table_Inr(3) [OF assms] sample_voltage_ends nth_append del: upt_Suc)

lemma interpolate_below:
  assumes "build_table alpha_fn beta_fn vmin vmax divs = Inr table" and "v < vmin"
  shows "interpolate table v = (alpha_samples table ! 0, beta_samples table ! 0)"
proof -
  note ok = build_table_Inr(1,2) [OF assms(1)]
  have "v_min table = vmin" "v_max table = vmax" "divisions table = divs"
    by (simp_all add: build_table_Inr(3) [OF assms(1)])
  then show ?thesis
    using ok assms(2) by (simp add: interpolate_def clamp_def lerp_def)
qed

lemma interpolate_above:
  assumes "build_table alpha_fn beta_fn vmin vmax divs = Inr table" and "vmax < v"
  shows "interpolate table v = (alpha_samples table ! divs, beta_samples table ! divs)"
proof -
  note ok = build_table_Inr(1,2) [OF assms(1)]
  have t: "v_min table = vmin" "v_max table = vmax" "divisions table = divs"
    by (simp_all add: build_table_Inr(3) [OF assms(1)])
  have c: "clamp vmin vmax v = vmax"
    using ok assms(2) by (simp add: clamp_def)
  have pos: "(vmax - vmin) / ((vmax - vmin) / real divs) = real divs"
    using ok by simp
  show ?thesis
    using ok by (simp add: interpolate_def t c pos lerp_def)
qed

lemma clamp_idem: "lo \<le> hi \<Longrightarrow> clamp lo hi (clamp lo hi v) = clamp lo hi v"
  by (simp add: clamp_def)

text \<open>
  Claim C4. For a table built by \<open>build_table\<close> and a voltage outside \<open>[v_min, v_max]\<close>,
  \<open>interpolate\<close> returns exactly the boundary sample: the sample at \<open>v_min\<close> for a voltage
  below \<open>v_min\<close>, the sample at \<open>v_max\<close> for a voltage above \<open>v_max\<close>. The result is that
  of the clamped voltage (nothing is extrapolated), and \<open>interpolate\<close> is a total
  function into pairs of reals: it has no error and no undefined result.
\<close>

theorem interpolate_out_of_range:
  assumes "build_table alpha_fn beta_fn vmin vmax divs = Inr table"
    and "v_lo < vmin" and "vmax < v_hi"
  shows "interpolate table v_lo = (alpha_samples table ! 0, beta_samples table ! 0) \<and>
         interpolate table v_lo = (alpha_fn vmin, beta_fn vmin) \<and>
         interpolate table v_hi = (alpha_samples table ! divs, beta_samples table ! divs) \<and>
         interpolate table v_hi = (alpha_fn vmax, beta_fn vmax) \<and>
         interpolate table v = interpolate table (clamp vmin vmax v)"
proof -
  have "v_min table = vmin" "v_max table = vmax"
    by (simp_all add: build_table_Inr(3) [OF assms(1)])
  then have "interpolate table v = interpolate table (clamp vmin vmax v)"
    using build_table_Inr(2) [OF assms(1)] by (simp add: interpolate_def clamp_idem)
  then show ?thesis
    using interpolate_below [OF assms(1,2)] interpolate_above [OF assms(1,3)]
      boundary_samples [OF assms(1)]
    by simp
qed

theorem interpolate_out_of_range_witness:
  "interpolate (projr (build_table (\<lambda>v. 2 * v) (\<lambda>v. 1 - v) 0 1 4)) (- 1) = (0, 1) \<and>
   interpolate (projr (build_table (\<lambda>v. 2 * v) (\<lambda>v. 1 - v) 0 1 4)) 3 = (2, 0)"
proof -
  have b: "build_table (\<lambda>v. 2 * v) (\<lambda>v. 1 - v) 0 1 4 =
           Inr (projr (build_table (\<lambda>v. 2 * v) (\<lambda>v. 1 - v) 0 1 4))"
    by (simp add: build_table_def)
  have lo: "(- 1 :: real) < 0" and hi: "(1 :: real) < 3"
    by simp_all
  from interpolate_out_of_range [OF b lo hi, of 0]
  have "interpolate (projr (build_table (\<lambda>v. 2 * v) (\<lambda>v. 1 - v) 0 1 4)) (- 1) = (2 * 0, 1 - 0)"
    and "interpolate (projr (build_table (\<lambda>v. 2 * v) (\<lambda>v. 1 - v) 0 1 4)) 3 = (2 * 1, 1 - 1)"
    by blast+
  then show ?thesis
    by simp
qed

section \<open>Properties of the spike detector\<close>

lemma sample_threshold: "threshold (fst (sample d t v)) = threshold d"
  by (simp add: sample_def split: detector_state.splits)

lemma sample_events:
  "snd (sample d t v) =
     (if state d = BELOW_THRESHOLD \<and> threshold d < v then [t + delay d] else [])"
  by (simp add: sample_def split: detector_state.splits)

lemma sample_state:
  "state (fst (sample d t v)) =
     (if threshold d < v then ABOVE_THRESHOLD
      else if v < threshold d then BELOW_THRESHOLD else state d)"
  by (cases "state d") (auto simp: sample_def)

lemma upward_crossings_Cons2:
  "a \<noteq> thr \<Longrightarrow> b \<noteq> thr \<Longrightarrow>
   upward_crossings thr (a # b # vs) =
     (if a < thr \<and> thr < b then 1 else 0) + upward_crossings thr (b # vs)"
  by (simp add: upward_crossings_def)

lemma length_spike_events:
  "length (spike_events d trace) =
     upward_crossings (threshold d) (side_sample d # map snd trace)"
proof (induction trace arbitrary: d)
  case Nil
  then show ?case by (simp add: spike_events_def upward_crossings_def)
next
  case (Cons p trace)
  obtain t v where p: "p = (t, v)" by (cases p)
  obtain d' ev where s: "sample d t v = (d', ev)" by (cases "sample d t v")
  have thr: "threshold d' = threshold d"
    using sample_threshold [of d t v] s by simp
  have len: "length (spike_events d (p # trace)) = length ev + length (spike_events d' trace)"
    by (simp add: spike_events_def p s split: prod.splits)
  have ne: "side_sample d \<noteq> threshold d" "side_sample d' \<noteq> threshold d"
    using thr by (simp_all add: side_sample_def split: detector_state.splits)
  show ?case
  proof (cases "v = threshold d")
    case True
    then have "d' = d" "ev = []"
      using s by (auto simp: sample_def split: detector_state.splits)
    then show ?thesis
      using len Cons.IH [of d] True by (simp add: p upward_crossings_def)
  next
    case False
    have side: "side_sample d' < threshold d \<longleftrightarrow> v < threshold d"
      using s False
      by (auto simp: sample_def side_sample_def split: detector_state.splits if_splits)
    have ev: "length ev = (if side_sample d < threshold d \<and> threshold d < v then 1 else 0)"
      using s False
      by (auto simp: sample_def side_sample_def split: detector_state.splits if_splits)
    have eq: "upward_crossings (threshold d) (side_sample d' # map snd trace) =
              upward_crossings (threshold d) (v # map snd trace)"
      using ne(2) False side
      by (cases "filter (\<lambda>v. v \<noteq> threshold d) (map snd trace)")
         (auto simp: upward_crossings_def)
    show ?thesis
      using len Cons.IH [of d'] thr ev eq
      by (simp add: p upward_crossings_Cons2 [OF ne(1) False])
  qed
qed

lemma sample_again:
  "sample d t v = (d', ev) \<Longrightarrow> sample d' t' v = (d', [])"
  by (auto simp: sample_def split: detector_state.splits if_splits)

lemma run_same_voltage:
  assumes "\<And>t'. sample d' t' v = (d', [])"
  shows "run d' (map (\<lambda>j. (f j, v)) js @ trace) = run d' trace"
  using assms by (induction js) simp_all

lemma hold_Suc:
  "hold (Suc j) dt (t, v) = (t, v) # map (\<lambda>i. (t + real (Suc i) * dt, v)) [0..<j]"
proof -
  have "[0..<Suc j] = 0 # map Suc [0..<j]"
    by (simp only: upt_conv_Cons [of 0 "Suc j"] map_Suc_upt)
  then show ?thesis
    by (simp add: hold_def comp_def del: upt_Suc)
qed

lemma run_hold:
  assumes "0 < k"
  shows "run d (hold k dt (t, v) @ trace) = run d ((t, v) # trace)"
proof -
  obtain j where k: "k = Suc j" using assms by (cases k) auto
  obtain d' ev where s: "sample d t v = (d', ev)" by (cases "sample d t v")
  have "run d' (map (\<lambda>i. (t + real (Suc i) * dt, v)) [0..<j] @ trace) = run d' trace"
    using sample_again [OF s] by (rule run_same_voltage)
  then show ?thesis
    by (simp add: k hold_Suc s del: upt_Suc)
qed

lemma run_oversample:
  assumes "0 < k"
  shows "run d (oversample k dt trace) = run d trace"
proof (induction trace arbitrary: d)
  case Nil
  then show ?case by (simp add: oversample_def)
next
  case (Cons p trace)
  obtain t v where p: "p = (t, v)" by (cases p)
  have "run d (oversample k dt (p # trace)) = run d (hold k dt (t, v) @ oversample k dt trace)"
    by (simp add: oversample_def p)
  also have "\<dots> = run d ((t, v) # oversample k dt trace)"
    by (rule run_hold [OF assms])
  also have "\<dots> = run d ((t, v) # trace)"
    by (simp add: Cons.IH split: prod.splits)
  finally show ?case by (simp add: p)
qed

text \<open>
  Claim C3. A sample makes the detector emit exactly one event when it takes it from
  \<open>BELOW_THRESHOLD\<close> to \<open>ABOVE_THRESHOLD\<close> (the voltage is strictly above the threshold)
  and no event otherwise: none on the way down, none while the voltage stays on its
  side. Over a whole trace the number of events is the number of upward crossings of the
  voltage sequence, and sampling \<open>k\<close> times as fast (every sample held for \<open>k\<close> samples)
  leaves the emitted events unchanged.
\<close>

theorem spike_detector_one_event_per_upward_crossing:
  assumes "0 < k"
  shows "snd (sample d t v) =
           (if state d = BELOW_THRESHOLD \<and> threshold d < v then [t + delay d] else []) \<and>
         state (fst (sample d t v)) =
           (if threshold d < v then ABOVE_THRESHOLD
            else if v < threshold d then BELOW_THRESHOLD else state d) \<and>
         length (spike_events d trace) =
           upward_crossings (threshold d) (side_sample d # map snd trace) \<and>
         spike_events d (oversample k dt trace) = spike_events d trace"
  using sample_events [of d t v] sample_state [of d t v] length_spike_events [of d trace]
    run_oversample [OF assms, of d dt trace]
  by (simp add: spike_events_def)

theorem spike_detector_one_event_per_upward_crossing_witness:
  "spike_events \<lparr>threshold = 0, delay = 1 / 1000, state = BELOW_THRESHOLD\<rparr>
     [(0, - 1), (1, 1), (2, 2), (3, - 1), (4, 1)] = [1001 / 1000, 4001 / 1000] \<and>
   upward_crossings 0 (- 1 # map snd [(0, - 1), (1, 1), (2, 2), (3, - 1), (4 :: real, 1)]) = 2 \<and>
   spike_events \<lparr>threshold = 0, delay = 1 / 1000, state = BELOW_THRESHOLD\<rparr>
     (oversample 3 (1 / 4) [(0, - 1), (1, 1), (2, 2), (3, - 1), (4, 1)]) = [1001 / 1000, 4001 / 1000]"
proof -
  have k: "(0 :: nat) < 3" by simp
  have ev: "spike_events \<lparr>threshold = 0, delay = 1 / 1000, state = BELOW_THRESHOLD\<rparr>
     [(0, - 1), (1, 1), (2, 2), (3, - 1), (4, 1)] = [1001 / 1000, 4001 / 1000]"
    by (simp add: spike_events_def sample_def)
  have up: "upward_crossings 0 (- 1 # map snd [(0, - 1), (1, 1), (2, 2), (3, - 1), (4 :: real, 1)]) = 2"
    by (simp add: upward_crossings_def)
  from spike_detector_one_event_per_upward_crossing [OF k,
      where d = "\<lparr>threshold = 0, delay = 1 / 1000, state = BELOW_THRESHOLD\<rparr>"
        and dt = "1 / 4" and trace = "[(0, - 1), (1, 1), (2, 2), (3, - 1), (4, 1)]"]
  have "spike_events \<lparr>threshold = 0, delay = 1 / 1000, state = BELOW_THRESHOLD\<rparr>
     (oversample 3 (1 / 4) [(0, - 1), (1, 1), (2, 2), (3, - 1), (4, 1)]) =
     spike_events \<lparr>threshold = 0, delay = 1 / 1000, state = BELOW_THRESHOLD\<rparr>
     [(0, - 1), (1, 1), (2, 2), (3, - 1), (4, 1)]"
    by blast
  with ev up show ?thesis by simp
qed

section \<open>Properties of the double-exponential kernel\<close>

text \<open>
  The exponential lies below its chords: the inequality behind the maximum of the
  kernel. It follows from \<open>1 + x \<le> exp x\<close> at two points.
\<close>

lemma exp_convex_combination:
  fixes s \<theta> :: real
  assumes "0 \<le> \<theta>" and "\<theta> \<le> 1"
  shows "exp (\<theta> * s) \<le> \<theta> * exp s + (1 - \<theta>)"
proof -
  define E where "E = exp (\<theta> * s)"
  have E: "0 < E" by (simp add: E_def)
  have "exp s = E * exp ((1 - \<theta>) * s)"
    unfolding E_def by (simp add: exp_add [symmetric] algebra_simps)
  moreover have "E * (1 + (1 - \<theta>) * s) \<le> E * exp ((1 - \<theta>) * s)"
    using E by (intro mult_left_mono) simp_all
  ultimately have 1: "E * (1 + (1 - \<theta>) * s) \<le> exp s" by simp
  have "1 = E * exp (- (\<theta> * s))"
    unfolding E_def by (simp add: exp_add [symmetric])
  moreover have "E * (1 + - (\<theta> * s)) \<le> E * exp (- (\<theta> * s))"
    using E by (intro mult_left_mono exp_ge_add_one_self) simp_all
  ultimately have 2: "E * (1 - \<theta> * s) \<le> 1" by simp
  define P where "P = \<theta> * (E * (1 + (1 - \<theta>) * s))"
  define Q where "Q = (1 - \<theta>) * (E * (1 - \<theta> * s))"
  have "P \<le> \<theta> * exp s"
    unfolding P_def using 1 assms by (intro mult_left_mono) simp_all
  moreover have "Q \<le> 1 - \<theta>"
  proof -
    have "Q \<le> (1 - \<theta>) * 1"
      unfolding Q_def using 2 assms by (intro mult_left_mono) simp_all
    then show ?thesis by simp
  qed
  moreover have "P + Q = E"
    unfolding P_def Q_def by (simp add: algebra_simps)
  ultimately have "E \<le> \<theta> * exp s + (1 - \<theta>)"
    by linarith
  then show ?thesis
    by (simp add: E_def)
qed

lemma peak_ratio:
  fixes a b :: real
  assumes "a \<noteq> b" and "0 < a * b"
  defines "tp \<equiv> (a * b) / (b - a) * ln (b / a)"
  shows "exp (- tp / a) = exp (- tp / b) * (a / b)"
proof -
  have nz: "a \<noteq> 0" "b \<noteq> 0" "b - a \<noteq> 0"
    using assms by auto
  have pos: "0 < b / a"
    using assms(2) by (auto simp: zero_less_divide_iff zero_less_mult_iff)
  have "- tp / a = - tp / b - ln (b / a)"
    unfolding tp_def using nz by (simp add: field_simps)
  then have "exp (- tp / a) = exp (- tp / b) / exp (ln (b / a))"
    by (simp add: exp_diff)
  also have "\<dots> = exp (- tp / b) * (a / b)"
    using pos nz by simp
  finally show ?thesis .
qed

lemma kernel_peak:
  fixes a b t :: real
  assumes "a \<noteq> b" and "0 < a * b"
  defines "tp \<equiv> (a * b) / (b - a) * ln (b / a)"
  shows "exp (- tp / a) - exp (- tp / b) \<noteq> 0"
    and "(1 / (exp (- tp / a) - exp (- tp / b))) * (exp (- t / a) - exp (- t / b)) \<le> 1"
proof -
  define A where "A = exp (- tp / a)"
  define B where "B = exp (- tp / b)"
  define d where "d = t - tp"
  have nz: "a \<noteq> 0" "b \<noteq> 0"
    using assms by auto
  have AB: "A = B * (a / b)"
    unfolding A_def B_def tp_def using peak_ratio [OF assms(1,2)] by simp
  have Apos: "0 < A" and Bpos: "0 < B"
    by (simp_all add: A_def B_def)
  have ta: "exp (- t / a) = A * exp (- d / a)"
    unfolding A_def d_def by (simp add: exp_add [symmetric] diff_divide_distrib)
  have tb: "exp (- t / b) = B * exp (- d / b)"
    unfolding B_def d_def by (simp add: exp_add [symmetric] diff_divide_distrib)
  have ratio_pos: "0 < a / b"
    using assms(2) by (auto simp: zero_less_divide_iff zero_less_mult_iff)
  have ratio_ne: "a / b \<noteq> 1"
    using assms(1) nz by simp
  have goal: "A - B \<noteq> 0 \<and> (1 / (A - B)) * (A * exp (- d / a) - B * exp (- d / b)) \<le> 1"
  proof (cases "a / b < 1")
    case True
    define \<theta> where "\<theta> = a / b"
    have th: "0 \<le> \<theta>" "\<theta> \<le> 1" "\<theta> < 1"
      using True ratio_pos by (simp_all add: \<theta>_def)
    have "\<theta> * (- d / a) = - d / b"
      unfolding \<theta>_def using nz by simp
    then have J: "exp (- d / b) \<le> \<theta> * exp (- d / a) + (1 - \<theta>)"
      using exp_convex_combination [OF th(1,2), of "- d / a"] by simp
    have A: "A = B * \<theta>" using AB by (simp add: \<theta>_def)
    have neg: "A - B < 0"
    proof -
      have "A - B = B * (\<theta> - 1)" by (simp add: A algebra_simps)
      moreover have "B * (\<theta> - 1) < 0"
        using Bpos th(3) by (simp add: mult_less_0_iff)
      ultimately show ?thesis by simp
    qed
    have "B * exp (- d / b) \<le> B * (\<theta> * exp (- d / a) + (1 - \<theta>))"
      using J Bpos by (intro mult_left_mono) simp_all
    then have "A - B \<le> A * exp (- d / a) - B * exp (- d / b)"
      by (simp add: A algebra_simps)
    then have "(A * exp (- d / a) - B * exp (- d / b)) / (A - B) \<le> 1"
      using neg by (simp add: divide_le_eq)
    with neg show ?thesis by simp
  next
    case False
    define \<theta> where "\<theta> = b / a"
    have gt: "1 < a / b" using False ratio_ne by linarith
    have bpos: "0 < b / a"
      using assms(2) by (auto simp: zero_less_divide_iff zero_less_mult_iff)
    have "b / a = inverse (a / b)" by simp
    also have "\<dots> < 1" using gt inverse_less_1_iff [of "a / b"] by blast
    finally have th: "0 \<le> \<theta>" "\<theta> \<le> 1" "\<theta> < 1"
      using bpos by (simp_all add: \<theta>_def)
    have "\<theta> * (- d / b) = - d / a"
      unfolding \<theta>_def using nz by simp
    then have J: "exp (- d / a) \<le> \<theta> * exp (- d / b) + (1 - \<theta>)"
      using exp_convex_combination [OF th(1,2), of "- d / b"] by simp
    have B: "B = A * \<theta>" using AB nz by (simp add: \<theta>_def)
    have pos: "0 < A - B"
    proof -
      have "A - B = A * (1 - \<theta>)" by (simp add: B algebra_simps)
      moreover have "0 < A * (1 - \<theta>)"
        using Apos th(3) by simp
      ultimately show ?thesis by simp
    qed
    have "A * exp (- d / a) \<le> A * (\<theta> * exp (- d / b) + (1 - \<theta>))"
      using J Apos by (intro mult_left_mono) simp_all
    then have "A * exp (- d / a) - B * exp (- d / b) \<le> A - B"
      by (simp add: B algebra_simps)
    then have "(A * exp (- d / a) - B * exp (- d / b)) / (A - B) \<le> 1"
      using pos by (simp add: divide_le_eq)
    with pos show ?thesis by simp
  qed
  from goal show "exp (- tp / a) - exp (- tp / b) \<noteq> 0"
    by (simp add: A_def B_def)
  from goal show "(1 / (exp (- tp / a) - exp (- tp / b))) * (exp (- t / a) - exp (- t / b)) \<le> 1"
    unfolding ta tb by (simp add: A_def B_def)
qed

lemma same_sign_ratio:
  fixes a b :: real
  assumes "0 < a * b"
  shows "a \<noteq> 0" and "b \<noteq> 0" and "0 < b / a"
  using assms by (auto simp: zero_less_divide_iff zero_less_mult_iff)

text \<open>
  Claim C5, as the formulas of the setup allow it. The setup raises \<open>DomainError\<close> if and
  only if \<open>tau1 = tau2\<close>. For \<open>tau1 \<noteq> tau2\<close> of the same sign (both not zero; in
  particular for all positive time constants) it returns a normalization constant \<open>n\<close>
  with \<open>n * (e^(-t_peak / tau1) - e^(-t_peak / tau2)) = 1\<close>, and \<open>1\<close> is the peak: the
  normalized kernel is at most \<open>1\<close> at every time.
\<close>

theorem kernel_setup_peak:
  "(kernel_setup tau1 tau2 = Inl DomainError \<longleftrightarrow> tau1 = tau2) \<and>
   (tau1 \<noteq> tau2 \<and> 0 < tau1 * tau2 \<longrightarrow>
      (\<exists>n tp. kernel_setup tau1 tau2 = Inr (Some n) \<and>
               t_peak tau1 tau2 = Some tp \<and>
               tp = (tau1 * tau2) / (tau2 - tau1) * ln (tau2 / tau1) \<and>
               kernel tau1 tau2 tp = Some (exp (- tp / tau1) - exp (- tp / tau2)) \<and>
               n * (exp (- tp / tau1) - exp (- tp / tau2)) = 1 \<and>
               (\<forall>t. n * (exp (- t / tau1) - exp (- t / tau2)) \<le> 1)))"
proof (intro conjI impI)
  show "kernel_setup tau1 tau2 = Inl DomainError \<longleftrightarrow> tau1 = tau2"
    by (simp add: kernel_setup_def)
next
  assume h: "tau1 \<noteq> tau2 \<and> 0 < tau1 * tau2"
  then have ne: "tau1 \<noteq> tau2" and same: "0 < tau1 * tau2"
    by simp_all
  define tp where "tp = (tau1 * tau2) / (tau2 - tau1) * ln (tau2 / tau1)"
  define k where "k = exp (- tp / tau1) - exp (- tp / tau2)"
  note nz = same_sign_ratio [OF same]
  have k: "k \<noteq> 0"
    unfolding k_def tp_def by (rule kernel_peak(1) [OF ne same])
  have tpeak: "t_peak tau1 tau2 = Some tp"
    using ne nz by (simp add: t_peak_def tp_def)
  have ker: "kernel tau1 tau2 tp = Some k"
    using nz by (simp add: kernel_def k_def)
  have res: "kernel_setup tau1 tau2 = Inr (Some (1 / k))"
    using ne k by (simp add: kernel_setup_def normalization_def tpeak ker)
  have peak: "(1 / k) * k = 1"
    using k by simp
  have bound: "\<forall>t. (1 / k) * (exp (- t / tau1) - exp (- t / tau2)) \<le> 1"
    unfolding k_def tp_def using kernel_peak(2) [OF ne same] by blast
  show "\<exists>n tp. kernel_setup tau1 tau2 = Inr (Some n) \<and>
               t_peak tau1 tau2 = Some tp \<and>
               tp = (tau1 * tau2) / (tau2 - tau1) * ln (tau2 / tau1) \<and>
               kernel tau1 tau2 tp = Some (exp (- tp / tau1) - exp (- tp / tau2)) \<and>
               n * (exp (- tp / tau1) - exp (- tp / tau2)) = 1 \<and>
               (\<forall>t. n * (exp (- t / tau1) - exp (- t / tau2)) \<le> 1)"
    using res tpeak ker peak bound unfolding k_def tp_def by blast
qed

text \<open>The time constants of the notebook: \<open>tau1 = 1e-3\<close>, \<open>tau2 = 5e-3\<close>.\<close>

theorem kernel_setup_peak_witness:
  "(1 / 1000 :: real) \<noteq> 5 / 1000 \<and> (0 :: real) < 1 / 1000 * (5 / 1000) \<and>
   (\<exists>n tp. kernel_setup (1 / 1000) (5 / 1000) = Inr (Some n) \<and>
            t_peak (1 / 1000) (5 / 1000) = Some tp \<and>
            n * (exp (- tp / (1 / 1000)) - exp (- tp / (5 / 1000))) = 1 \<and>
            (\<forall>t. n * (exp (- t / (1 / 1000)) - exp (- t / (5 / 1000))) \<le> 1))"
proof -
  have h: "(1 / 1000 :: real) \<noteq> 5 / 1000 \<and> (0 :: real) < 1 / 1000 * (5 / 1000)"
    by simp
  with kernel_setup_peak [of "1 / 1000" "5 / 1000"] show ?thesis
    by blast
qed

text \<open>
  The claim as stated fails for a time constant that is zero: \<open>tau1 = 0\<close> differs from
  \<open>tau2 = 1\<close>, so no \<open>DomainError\<close> is raised, but \<open>tau2 / tau1\<close> divides by zero and
  there is no normalization constant.
\<close>

theorem kernel_setup_zero_tau_counterexample:
  "(0 :: real) \<noteq> 1 \<and> kernel_setup 0 1 = Inr None"
  by (simp add: kernel_setup_def normalization_def t_peak_def)

section \<open>Properties of \<open>get_hh_proto\<close>\<close>

lemma exists_path_create: "exists_path (create cls p s) q \<longleftrightarrow> q = p \<or> exists_path s q"
  by (auto simp: create_def exists_path_def)

lemma exists_path_set_field: "exists_path (set_field p f v s) q \<longleftrightarrow> exists_path s q"
  by (auto simp: set_field_def exists_path_def split: option.splits)

lemma exists_path_connect: "exists_path (connect a fa b fb s) q \<longleftrightarrow> exists_path s q"
  by (simp add: connect_def exists_path_def)

lemma exists_path_set_power:
  "exists_path (set_power chan f gate n s) q \<longleftrightarrow> q = chan @ ''/'' @ gate \<or> exists_path s q"
  by (simp add: set_power_def exists_path_create exists_path_set_field)

lemma exists_path_setup_gate: "exists_path (setup_gate s g) q \<longleftrightarrow> exists_path s q"
  by (cases g) (simp add: setup_gate_def exists_path_set_field)

lemmas exists_path_simps =
  exists_path_create exists_path_set_field exists_path_connect exists_path_set_power
  exists_path_setup_gate

lemma exists_path_make_proto_self: "exists_path (make_proto p s) p"
  by (simp add: make_proto_def Let_def exists_path_simps)

lemma exists_path_make_proto_kept: "exists_path s q \<Longrightarrow> exists_path (make_proto p s) q"
  by (simp add: make_proto_def Let_def exists_path_simps)

lemma create_existing: "exists_path s p \<Longrightarrow> create cls p s = s"
  by (simp add: create_def)

lemma create_elsewhere:
  "messages (create cls p s) = messages s"
  "elements (create cls p s) |` (- {p}) = elements s |` (- {p})"
  "exists_path s q \<Longrightarrow> elements (create cls p s) q = elements s q"
  by (auto simp: create_def restrict_map_def exists_path_def)

lemma fst_get_hh_proto: "fst (get_hh_proto s) = ''/library/comp''"
  by (simp add: get_hh_proto_def Let_def)

lemma get_hh_proto_exists:
  "exists_path (snd (get_hh_proto s)) ''/library/comp''"
  "exists_path (snd (get_hh_proto s)) ''/library''"
proof -
  have lib: "exists_path (create ''Neutral'' ''/library'' s) ''/library''"
    by (simp add: exists_path_create)
  show "exists_path (snd (get_hh_proto s)) ''/library/comp''"
    by (simp add: get_hh_proto_def Let_def exists_path_make_proto_self)
  show "exists_path (snd (get_hh_proto s)) ''/library''"
    using lib exists_path_make_proto_kept [OF lib]
    by (simp add: get_hh_proto_def Let_def)
qed

lemma get_hh_proto_existing:
  assumes "exists_path s ''/library/comp''"
  shows "get_hh_proto s = (''/library/comp'', create ''Neutral'' ''/library'' s)"
  using assms by (simp add: get_hh_proto_def Let_def exists_path_create)

lemma get_hh_proto_twice: "get_hh_proto (snd (get_hh_proto s)) = get_hh_proto s"
proof -
  let ?s1 = "snd (get_hh_proto s)"
  have "get_hh_proto ?s1 = (''/library/comp'', create ''Neutral'' ''/library'' ?s1)"
    by (rule get_hh_proto_existing) (rule get_hh_proto_exists)
  also have "create ''Neutral'' ''/library'' ?s1 = ?s1"
    by (rule create_existing) (rule get_hh_proto_exists)
  finally show ?thesis
    using fst_get_hh_proto [of s] by (simp add: prod_eq_iff)
qed

lemma repeat_calls_fixed: "repeat_calls n (get_hh_proto s) = get_hh_proto s"
  by (induction n) (simp_all add: get_hh_proto_twice)

text \<open>
  Claim C10. If the prototype compartment already exists under \<open>/library\<close>, a call of
  \<open>get_hh_proto\<close> returns that compartment and changes nothing: the compartment, every
  other element below it and the messages are as before (the only thing the call may do
  is create \<open>/library\<close> itself, and it does not when \<open>/library\<close> exists). So after the
  first call in any state, any number of further calls return the same compartment in
  the same state.
\<close>

theorem get_hh_proto_idempotent:
  assumes "exists_path s ''/library/comp''"
  shows "fst (get_hh_proto s) = ''/library/comp'' \<and>
         elements (snd (get_hh_proto s)) ''/library/comp'' = elements s ''/library/comp'' \<and>
         elements (snd (get_hh_proto s)) |` (- {''/library''}) = elements s |` (- {''/library''}) \<and>
         messages (snd (get_hh_proto s)) = messages s \<and>
         (if exists_path s ''/library'' then snd (get_hh_proto s) = s
          else snd (get_hh_proto s) = create ''Neutral'' ''/library'' s) \<and>
         repeat_calls n (get_hh_proto s0) = get_hh_proto s0 \<and>
         exists_path (snd (get_hh_proto s0)) ''/library/comp''"
  using assms get_hh_proto_existing [OF assms] create_elsewhere [where cls = "''Neutral''" and p = "''/library''" and s = s]
    repeat_calls_fixed [of n s0] get_hh_proto_exists(1) [of s0]
  by (simp add: create_existing)

theorem get_hh_proto_idempotent_witness:
  "exists_path \<lparr>elements = [''/library/comp'' \<mapsto> \<lparr>className = ''Compartment'', attrs = Map.empty\<rparr>],
                messages = []\<rparr> ''/library/comp'' \<and>
   fst (get_hh_proto \<lparr>elements = [''/library/comp'' \<mapsto> \<lparr>className = ''Compartment'', attrs = Map.empty\<rparr>],
                messages = []\<rparr>) = ''/library/comp'' \<and>
   messages (snd (get_hh_proto \<lparr>elements = [''/library/comp'' \<mapsto> \<lparr>className = ''Compartment'', attrs = Map.empty\<rparr>],
                messages = []\<rparr>)) = [] \<and>
   repeat_calls 2 (get_hh_proto \<lparr>elements = Map.empty, messages = []\<rparr>) =
     get_hh_proto \<lparr>elements = Map.empty, messages = []\<rparr>"
proof -
  have h: "exists_path \<lparr>elements = [''/library/comp'' \<mapsto> \<lparr>className = ''Compartment'', attrs = Map.empty\<rparr>],
                messages = []\<rparr> ''/library/comp''"
    by (simp add: exists_path_def)
  from get_hh_proto_idempotent [OF h, of 2 "\<lparr>elements = Map.empty, messages = []\<rparr>"] h
  show ?thesis
    by simp
qed

end
